theory Spec2Isabelle
  imports Main "HOL-Library.Word"
begin

section \<open>Heart Chaser (main.c): a shallow embedding of the game core\<close>

text \<open>
  The C types of the source: \<open>uint16_t\<close> coordinates, \<open>uint32_t\<close> tick values and
  \<open>uint8_t\<close> maze tiles are words, whose \<open>+\<close> and \<open>-\<close> wrap as the C arithmetic
  does after the assignment back to the narrow type. The C \<open>int\<close> variables of the
  game (flags, level, speed, direction) only ever hold values between \<open>-1\<close> and \<open>4\<close>;
  they are modelled as \<open>int\<close>, and a C condition \<open>if (v)\<close> on them is \<open>v \<noteq> 0\<close>.
  Calls into the display, the serial port and the logging sink have no effect on the
  variables modelled here and are left out.
\<close>

type_synonym uint8_t = "8 word"
type_synonym uint16_t = "16 word"
type_synonym uint32_t = "32 word"

subsection \<open>Rectangle containment: \<open>isInside\<close> (main.c 1315-1329)\<close>

definition isInside ::
  "uint16_t \<Rightarrow> uint16_t \<Rightarrow> uint16_t \<Rightarrow> uint16_t \<Rightarrow> uint16_t \<Rightarrow> uint16_t \<Rightarrow> int" where
  "isInside x1 y1 w h px py =
     (let x2 = x1 + w;
          y2 = y1 + h
      in if px \<ge> x1 \<and> px \<le> x2
         then (if py \<ge> y1 \<and> py \<le> y2 then 1 else 0)
         else 0)"

subsection \<open>The blocking delay: \<open>delay\<close> (main.c 1293-1298)\<close>

text \<open>
  \<open>delay\<close> computes \<open>end_time = dly + milliseconds\<close> and sleeps (\<open>wfi\<close>) while
  \<open>milliseconds \<noteq> end_time\<close>. The only interrupt is the tick, so each pass of the
  loop body is one tick of the counter: the loop below carries the counter and the
  number of ticks waited for. The counter is a 32-bit word, so the loop ends after at
  most \<open>2 ^ 32 - 1\<close> passes; the measure is the distance to \<open>end_time\<close>.
\<close>

function delay_loop :: "uint32_t \<Rightarrow> uint32_t \<Rightarrow> nat \<Rightarrow> uint32_t \<times> nat" where
  "delay_loop end_time ms n =
     (if ms \<noteq> end_time then delay_loop end_time (ms + 1) (Suc n) else (ms, n))"
  by pat_completeness auto
termination
proof (relation "measure (\<lambda>(end_time, ms, n). unat (end_time - ms))")
  show "wf (measure (\<lambda>(end_time, ms, n). unat (end_time - ms)))" by simp
next
  fix end_time ms :: uint32_t and n :: nat
  assume "ms \<noteq> end_time"
  then have nz: "end_time - ms \<noteq> 0" by simp
  have e1: "end_time - (ms + 1) = (end_time - ms) - 1" by (simp add: algebra_simps)
  have e2: "unat ((end_time - ms) - 1) = unat (end_time - ms) - 1"
    using nz by (rule unat_minus_one)
  have e3: "unat (end_time - ms) \<noteq> 0" using nz by (simp add: unat_eq_zero)
  have "unat (end_time - (ms + 1)) = unat (end_time - ms) - 1"
    by (simp only: e1 e2)
  with e3 have "unat (end_time - (ms + 1)) < unat (end_time - ms)" by arith
  then show "((end_time, ms + 1, Suc n), (end_time, ms, n))
      \<in> measure (\<lambda>(end_time, ms, n). unat (end_time - ms))"
    by simp
qed

declare delay_loop.simps [simp del]

definition delay :: "uint32_t \<Rightarrow> uint32_t \<Rightarrow> uint32_t \<times> nat" where
  "delay dly ms = (let end_time = dly + ms in delay_loop end_time ms 0)"

text \<open>The value of the counter when \<open>delay\<close> returns, for the callers below.\<close>

definition after_delay :: "uint32_t \<Rightarrow> uint32_t \<Rightarrow> uint32_t" where
  "after_delay dly ms = fst (delay dly ms)"

subsection \<open>The maze and the wall query: \<open>isWallCollision\<close> (main.c 425-443, 499-509)\<close>

text \<open>
  \<open>maze\<close> is declared \<open>uint8_t maze[20][16]\<close> with seventeen rows in its
  initialiser; C fills the three remaining rows with zeros.
\<close>

definition maze :: "uint8_t list list" where
  "maze =
   [[1,1,1,1,1,1,1,1,1,1,1,1,1,1,1,1],
    [1,0,0,0,0,0,1,0,0,0,0,0,0,0,0,1],
    [1,0,1,1,1,0,1,0,1,1,1,1,1,1,0,1],
    [1,0,0,0,1,0,0,0,0,0,1,0,0,0,0,1],
    [1,1,1,0,1,1,1,1,1,0,1,0,1,1,0,1],
    [1,0,0,0,0,0,0,0,1,0,0,0,1,0,0,1],
    [1,0,1,1,1,1,1,0,1,1,1,1,1,0,1,1],
    [1,0,0,0,0,0,1,0,0,0,0,0,0,0,0,1],
    [1,1,1,1,1,0,1,1,1,1,1,0,1,1,0,1],
    [1,0,0,0,0,0,1,0,0,0,0,0,1,0,0,1],
    [1,0,1,1,1,1,1,0,1,1,1,1,1,0,1,1],
    [1,0,0,0,0,0,0,0,1,0,0,0,0,0,0,1],
    [1,0,1,1,1,1,1,1,1,0,1,1,1,1,0,1],
    [1,0,0,0,0,0,0,0,0,0,0,0,0,1,0,1],
    [1,0,1,1,1,1,1,1,1,1,1,1,0,1,0,1],
    [1,0,0,0,0,0,0,0,0,0,0,0,0,0,0,1],
    [1,1,1,1,1,1,1,1,1,1,1,1,1,1,1,1],
    [0,0,0,0,0,0,0,0,0,0,0,0,0,0,0,0],
    [0,0,0,0,0,0,0,0,0,0,0,0,0,0,0,0],
    [0,0,0,0,0,0,0,0,0,0,0,0,0,0,0,0]]"

text \<open>
  A read \<open>m[gy][gx]\<close> of a two-dimensional array: \<open>None\<close> stands for a read outside
  the array, which C leaves undefined.
\<close>

definition tile_at :: "uint8_t list list \<Rightarrow> int \<Rightarrow> int \<Rightarrow> uint8_t option" where
  "tile_at m gy gx =
     (if 0 \<le> gy \<and> nat gy < length m \<and> 0 \<le> gx \<and> nat gx < length (m ! nat gy)
      then Some (m ! nat gy ! nat gx) else None)"

definition WALL_SIZE :: int where
  "WALL_SIZE = 8"

definition isWallCollision :: "uint16_t \<Rightarrow> uint16_t \<Rightarrow> int option" where
  "isWallCollision x y =
     (let gridX = uint x div WALL_SIZE;
          gridY = uint y div WALL_SIZE
      in if gridX \<ge> 0 \<and> gridX < 16 \<and> gridY \<ge> 0 \<and> gridY < 20
         then (case tile_at maze gridY gridX of
                 None \<Rightarrow> None
               | Some t \<Rightarrow> Some (if t = 1 then 1 else 0))
         else Some 1)"

subsection \<open>Game state (main.c 83-160, 212-218, 515)\<close>

record Enemy =
  e_x :: uint16_t
  e_y :: uint16_t
  active :: int
  speed :: int

definition MAX_ENEMIES :: nat where
  "MAX_ENEMIES = 6"

text \<open>
  The global variables the game logic reads and writes. \<open>enemies\<close> is the array
  \<open>Enemy enemies[MAX_ENEMIES]\<close>. \<open>rand_calls\<close> is the hidden state of the C library's
  \<open>rand\<close>: the number of calls made so far. The hearts 5 and 6 and the \<open>boss\<close> are
  declared by the source and used nowhere; the menu's \<open>selected_option\<close> is used only
  inside the menu branch.
\<close>

record game =
  milliseconds :: uint32_t
  pumpkin_move_delay :: uint32_t
  heart_move_delay :: uint32_t
  game_won :: int
  game_over :: int
  show_game_over_menu :: int
  game_over_selection :: int
  heart1_x :: uint16_t
  heart1_y :: uint16_t
  heart2_x :: uint16_t
  heart2_y :: uint16_t
  heart3_x :: uint16_t
  heart3_y :: uint16_t
  heart4_x :: uint16_t
  heart4_y :: uint16_t
  heart1_direction_x :: int
  heart1_direction_y :: int
  heart2_direction_x :: int
  heart2_direction_y :: int
  heart3_direction_x :: int
  heart3_direction_y :: int
  heart4_direction_x :: int
  heart4_direction_y :: int
  heart1_eaten :: int
  heart2_eaten :: int
  heart3_eaten :: int
  heart4_eaten :: int
  current_level :: int
  hearts_collected :: int
  enemies :: "Enemy list"
  in_menu :: int
  rand_calls :: nat

text \<open>The local variables of \<open>main\<close> that carry the player (main.c 800-803).\<close>

record main_locals =
  main_x :: uint16_t
  main_y :: uint16_t
  main_oldx :: uint16_t
  main_oldy :: uint16_t

text \<open>
  What the program reads from outside: the four buttons and the serial port, as
  functions of the tick at which they are read (a button is pressed when its input
  bit reads 0), and the sequence of values \<open>rand\<close> returns. The foreground code
  between two delays is taken to run within one tick.
\<close>

record env =
  right_pressed :: "uint32_t \<Rightarrow> bool"
  left_pressed :: "uint32_t \<Rightarrow> bool"
  down_pressed :: "uint32_t \<Rightarrow> bool"
  up_pressed :: "uint32_t \<Rightarrow> bool"
  serial_in :: "uint32_t \<Rightarrow> uint8_t"
  rand_value :: "nat \<Rightarrow> nat"

text \<open>The initialisers of the globals; C zero-fills \<open>milliseconds\<close> and \<open>enemies\<close>.\<close>

definition initial_game :: game where
  "initial_game =
     \<lparr> milliseconds = 0, pumpkin_move_delay = 0, heart_move_delay = 0,
       game_won = 0, game_over = 0, show_game_over_menu = 0, game_over_selection = 0,
       heart1_x = 40, heart1_y = 80, heart2_x = 60, heart2_y = 90,
       heart3_x = 80, heart3_y = 70, heart4_x = 30, heart4_y = 100,
       heart1_direction_x = 1, heart1_direction_y = 1,
       heart2_direction_x = 1, heart2_direction_y = 1,
       heart3_direction_x = 1, heart3_direction_y = 1,
       heart4_direction_x = 1, heart4_direction_y = 1,
       heart1_eaten = 0, heart2_eaten = 0, heart3_eaten = 0, heart4_eaten = 0,
       current_level = 1, hearts_collected = 0,
       enemies = replicate MAX_ENEMIES \<lparr> e_x = 0, e_y = 0, active = 0, speed = 0 \<rparr>,
       in_menu = 1, rand_calls = 0 \<rparr>"

definition initial_locals :: main_locals where
  "initial_locals = \<lparr> main_x = 50, main_y = 50, main_oldx = 50, main_oldy = 50 \<rparr>"

text \<open>A call \<open>delay(dly)\<close> from the foreground: the counter moves on to where \<open>delay\<close> returns.\<close>

definition do_delay :: "uint32_t \<Rightarrow> game \<Rightarrow> game" where
  "do_delay dly s = s\<lparr>milliseconds := after_delay dly (milliseconds s)\<rparr>"

subsection \<open>Enemies: \<open>initEnemies\<close>, \<open>moveEnemies\<close>, \<open>checkEnemyCollision\<close> (main.c 247-367)\<close>

definition initEnemies :: "game \<Rightarrow> game" where
  "initEnemies s =
     (if current_level s = 1
      then s\<lparr>enemies := (enemies s)[0 := \<lparr> e_x = 10, e_y = 10, active = 1, speed = 1 \<rparr>]\<rparr>
      else s\<lparr>enemies := (enemies s)
               [0 := \<lparr> e_x = 10, e_y = 10, active = 1, speed = 1 \<rparr>,
                1 := \<lparr> e_x = 100, e_y = 10, active = 1, speed = 1 \<rparr>,
                2 := \<lparr> e_x = 60, e_y = 140, active = 1, speed = 1 \<rparr>]\<rparr>)"

text \<open>
  The body of the loop of \<open>moveEnemies\<close> for one enemy. \<open>enemies[i].x += current_speed\<close>
  adds an \<open>int\<close> to a \<open>uint16_t\<close> and stores the sum back in 16 bits.
\<close>

definition moveEnemy :: "int \<Rightarrow> uint32_t \<Rightarrow> uint16_t \<Rightarrow> uint16_t \<Rightarrow> Enemy \<Rightarrow> Enemy" where
  "moveEnemy level ms pacman_x pacman_y e =
     (if active e \<noteq> 0 then
        let current_speed = (if level = 2 then (if ms mod 2 = 0 then 1 else 0) else speed e);
            x1 = (if e_x e < pacman_x then e_x e + word_of_int current_speed else e_x e);
            x2 = (if x1 > pacman_x then x1 - word_of_int current_speed else x1);
            y1 = (if e_y e < pacman_y then e_y e + word_of_int current_speed else e_y e);
            y2 = (if y1 > pacman_y then y1 - word_of_int current_speed else y1);
            x3 = (if x2 \<le> 0 then 0 else if x2 \<ge> 115 then 115 else x2);
            y3 = (if y2 \<le> 0 then 0 else if y2 \<ge> 144 then 144 else y2)
        in e\<lparr>e_x := x3, e_y := y3\<rparr>
      else e)"

text \<open>
  The loop \<open>for (i = 0; i < MAX_ENEMIES; i++)\<close> updates \<open>enemies[i]\<close> from
  \<open>enemies[i]\<close> alone, so it is a \<open>map\<close> over the array.
\<close>

definition moveEnemies :: "uint16_t \<Rightarrow> uint16_t \<Rightarrow> game \<Rightarrow> game" where
  "moveEnemies pacman_x pacman_y s =
     (if game_won s \<noteq> 0 then s
      else
        let delay_time = (if current_level s = 1 then 30 else 65 :: uint32_t)
        in if milliseconds s - pumpkin_move_delay s < delay_time then s
           else s\<lparr>pumpkin_move_delay := milliseconds s,
                   enemies := map (moveEnemy (current_level s) (milliseconds s) pacman_x pacman_y)
                                  (enemies s)\<rparr>)"

fun collision_loop :: "Enemy list \<Rightarrow> uint16_t \<Rightarrow> uint16_t \<Rightarrow> int" where
  "collision_loop [] pacman_x pacman_y = 0"
| "collision_loop (e # es) pacman_x pacman_y =
     (if active e \<noteq> 0 \<and> isInside (e_x e) (e_y e) 12 16 pacman_x pacman_y \<noteq> 0 then 1
      else collision_loop es pacman_x pacman_y)"

definition checkEnemyCollision :: "uint16_t \<Rightarrow> uint16_t \<Rightarrow> game \<Rightarrow> int" where
  "checkEnemyCollision pacman_x pacman_y s = collision_loop (enemies s) pacman_x pacman_y"

subsection \<open>Win check: \<open>showWinScreen\<close>, \<open>checkWinCondition\<close> (main.c 377-403, 706-787)\<close>

text \<open>
  Of \<open>showWinScreen\<close> only its delays touch the state: the fanfare, the four corner
  hearts, the pause, one tick for every fourth column of the separator, the four
  messages and the level count.
\<close>

definition showWinScreen_delays :: "uint32_t list" where
  "showWinScreen_delays =
     [200, 200, 200, 400] @ replicate 4 100 @ [500] @
     map (\<lambda>i. 1) (filter (\<lambda>i. i mod 4 = 0) [20..<108]) @
     replicate 4 200 @ [200]"

definition showWinScreen :: "game \<Rightarrow> game" where
  "showWinScreen s = fold do_delay showWinScreen_delays s"

definition required_hearts :: "int \<Rightarrow> int" where
  "required_hearts level = (if level = 1 then 2 else 4)"

text \<open>
  \<open>checkWinCondition\<close> receives \<open>x\<close> and \<open>y\<close> by value. The result carries, next to the
  globals, the values its own copies of \<open>x\<close> and \<open>y\<close> hold when it returns.
\<close>

definition checkWinCondition :: "uint16_t \<Rightarrow> uint16_t \<Rightarrow> game \<Rightarrow> game \<times> uint16_t \<times> uint16_t" where
  "checkWinCondition x y s =
     (let s1 = s\<lparr>hearts_collected := heart1_eaten s + heart2_eaten s\<rparr>;
          s2 = (if current_level s1 = 2
                then s1\<lparr>hearts_collected := hearts_collected s1 + (heart3_eaten s1 + heart4_eaten s1)\<rparr>
                else s1)
      in if hearts_collected s2 = required_hearts (current_level s) \<and> game_won s2 = 0 then
           if current_level s2 = 1 then
             let s3 = s2\<lparr>current_level := 2, heart1_eaten := 0, heart2_eaten := 0,
                        heart3_eaten := 0, heart4_eaten := 0\<rparr>;
                 s4 = initEnemies (do_delay 2000 s3)
             in (s4, 50, 50)
           else (showWinScreen (s2\<lparr>game_won := 1\<rparr>), x, y)
         else (s2, x, y))"

subsection \<open>The main loop outside the menu (main.c 867-887, 908-1211)\<close>

text \<open>\<open>case 0\<close> of the menu: start a new game (main.c 867-887).\<close>

definition start_new_game :: "game \<Rightarrow> main_locals \<Rightarrow> game \<times> main_locals" where
  "start_new_game s l =
     (let s1 = initEnemies (s\<lparr>in_menu := 0\<rparr>)
      in (s1\<lparr>game_over := 0, game_won := 0, heart1_eaten := 0, heart2_eaten := 0,
             heart1_x := 40, heart1_y := 80, heart2_x := 60, heart2_y := 90\<rparr>,
          l\<lparr>main_x := 50, main_y := 50, main_oldx := 50, main_oldy := 50\<rparr>))"

text \<open>
  Player movement (main.c 918-951): the new position and the flags \<open>hmoved\<close> and
  \<open>vmoved\<close>. The serial character \<open>'r'\<close> is the byte 114.
\<close>

definition player_movement ::
  "env \<Rightarrow> uint8_t \<Rightarrow> game \<Rightarrow> main_locals \<Rightarrow> main_locals \<times> bool \<times> bool" where
  "player_movement ev serial_char s l =
     (if game_over s = 0 \<and> game_won s = 0 then
        let t = milliseconds s;
            (x1, h1) = (if (right_pressed ev t \<or> serial_char = 114) \<and> main_x l < 115
                        then (main_x l + 1, True) else (main_x l, False));
            (x2, h2) = (if left_pressed ev t \<and> x1 > 2 then (x1 - 1, True) else (x1, h1));
            (y1, v1) = (if down_pressed ev t \<and> main_y l < 144
                        then (main_y l + 1, True) else (main_y l, False));
            (y2, v2) = (if up_pressed ev t \<and> y1 > 1 then (y1 - 1, True) else (y1, v1))
        in (l\<lparr>main_x := x2, main_y := y2\<rparr>, h2, v2)
      else (l, False, False))"

text \<open>
  Heart collection (main.c 971-999 and 1125-1151): the caller's \<open>x\<close> and \<open>y\<close> are passed
  to \<open>checkWinCondition\<close> by value and what the callee leaves in its copies is dropped.
\<close>

definition collect_heart1 :: "game \<Rightarrow> main_locals \<Rightarrow> game" where
  "collect_heart1 s l =
     (if heart1_eaten s = 0 \<and> isInside (heart1_x s) (heart1_y s) 12 16 (main_x l) (main_y l) \<noteq> 0
      then fst (checkWinCondition (main_x l) (main_y l) (do_delay 500 (s\<lparr>heart1_eaten := 1\<rparr>)))
      else s)"

definition collect_heart2 :: "game \<Rightarrow> main_locals \<Rightarrow> game" where
  "collect_heart2 s l =
     (if heart2_eaten s = 0 \<and> isInside (heart2_x s) (heart2_y s) 12 16 (main_x l) (main_y l) \<noteq> 0
      then fst (checkWinCondition (main_x l) (main_y l) (do_delay 500 (s\<lparr>heart2_eaten := 1\<rparr>)))
      else s)"

definition collect_heart3 :: "game \<Rightarrow> main_locals \<Rightarrow> game" where
  "collect_heart3 s l =
     (if heart3_eaten s = 0 \<and> isInside (heart3_x s) (heart3_y s) 12 16 (main_x l) (main_y l) \<noteq> 0
      then fst (checkWinCondition (main_x l) (main_y l) (do_delay 500 (s\<lparr>heart3_eaten := 1\<rparr>)))
      else s)"

definition collect_heart4 :: "game \<Rightarrow> main_locals \<Rightarrow> game" where
  "collect_heart4 s l =
     (if heart4_eaten s = 0 \<and> isInside (heart4_x s) (heart4_y s) 12 16 (main_x l) (main_y l) \<noteq> 0
      then fst (checkWinCondition (main_x l) (main_y l) (do_delay 500 (s\<lparr>heart4_eaten := 1\<rparr>)))
      else s)"

text \<open>
  The first part of an iteration (main.c 909-1000): win check, enemy update, player
  movement and, when the player moved, the pickup of hearts 1 and 2.
\<close>

definition game_state_updates :: "env \<Rightarrow> game \<Rightarrow> main_locals \<Rightarrow> game \<times> main_locals" where
  "game_state_updates ev s l =
     (let serial_char = serial_in ev (milliseconds s);
          s1 = fst (checkWinCondition (main_x l) (main_y l) s);
          s2 = (if game_won s1 = 0 then moveEnemies (main_x l) (main_y l) s1 else s1);
          (l1, hmoved, vmoved) = player_movement ev serial_char s2 l
      in if vmoved \<or> hmoved then
           let l2 = l1\<lparr>main_oldx := main_x l1, main_oldy := main_y l1\<rparr>
           in (collect_heart2 (collect_heart1 s2 l2) l2, l2)
         else (s2, l1))"

text \<open>
  Heart drift (main.c 1011-1087). \<open>(rand() % 3) - 1\<close> is the direction; the position is
  a \<open>uint16_t\<close>, so \<open>heart1_x += 3 * heart1_direction_x\<close> wraps, and the two boundary
  tests follow on the wrapped value.
\<close>

definition rand_direction :: "nat \<Rightarrow> int" where
  "rand_direction r = int (r mod 3) - 1"

definition drift :: "uint16_t \<Rightarrow> int \<Rightarrow> uint16_t \<Rightarrow> uint16_t" where
  "drift pos dir hi =
     (let p = pos + word_of_int (3 * dir);
          p = (if p \<le> 0 then 0 else p)
      in if p \<ge> hi then hi else p)"

definition move_heart1 :: "env \<Rightarrow> game \<Rightarrow> game" where
  "move_heart1 ev s =
     (if heart1_eaten s = 0 then
        let dx = rand_direction (rand_value ev (rand_calls s));
            dy = rand_direction (rand_value ev (rand_calls s + 1))
        in s\<lparr>heart1_direction_x := dx, heart1_direction_y := dy,
              heart1_x := drift (heart1_x s) dx 115, heart1_y := drift (heart1_y s) dy 144,
              rand_calls := rand_calls s + 2\<rparr>
      else s)"

definition move_heart2 :: "env \<Rightarrow> game \<Rightarrow> game" where
  "move_heart2 ev s =
     (if heart2_eaten s = 0 then
        let dx = rand_direction (rand_value ev (rand_calls s));
            dy = rand_direction (rand_value ev (rand_calls s + 1))
        in s\<lparr>heart2_direction_x := dx, heart2_direction_y := dy,
              heart2_x := drift (heart2_x s) dx 115, heart2_y := drift (heart2_y s) dy 144,
              rand_calls := rand_calls s + 2\<rparr>
      else s)"

definition move_heart3 :: "env \<Rightarrow> game \<Rightarrow> game" where
  "move_heart3 ev s =
     (if heart3_eaten s = 0 then
        let dx = rand_direction (rand_value ev (rand_calls s));
            dy = rand_direction (rand_value ev (rand_calls s + 1))
        in s\<lparr>heart3_direction_x := dx, heart3_direction_y := dy,
              heart3_x := drift (heart3_x s) dx 115, heart3_y := drift (heart3_y s) dy 144,
              rand_calls := rand_calls s + 2\<rparr>
      else s)"

definition move_heart4 :: "env \<Rightarrow> game \<Rightarrow> game" where
  "move_heart4 ev s =
     (if heart4_eaten s = 0 then
        let dx = rand_direction (rand_value ev (rand_calls s));
            dy = rand_direction (rand_value ev (rand_calls s + 1))
        in s\<lparr>heart4_direction_x := dx, heart4_direction_y := dy,
              heart4_x := drift (heart4_x s) dx 115, heart4_y := drift (heart4_y s) dy 144,
              rand_calls := rand_calls s + 2\<rparr>
      else s)"

definition move_hearts :: "env \<Rightarrow> game \<Rightarrow> game" where
  "move_hearts ev s =
     (let s2 = move_heart2 ev (move_heart1 ev s)
      in if current_level s2 = 2 then move_heart4 ev (move_heart3 ev s2) else s2)"

text \<open>The enemy collision check and the entry into the game-over menu (main.c 1090-1115).\<close>

definition enemy_collision :: "game \<Rightarrow> main_locals \<Rightarrow> game" where
  "enemy_collision s l =
     (if game_won s = 0 \<and> checkEnemyCollision (main_x l) (main_y l) s \<noteq> 0
      then s\<lparr>game_over := 1,
              enemies := map (\<lambda>e. if active e \<noteq> 0 then e\<lparr>active := 0\<rparr> else e) (enemies s),
              show_game_over_menu := 1, game_over_selection := 0\<rparr>
      else s)"

text \<open>
  The block guarded by the heart timer (main.c 1008-1119): heart drift, then the
  collision check, then the reset of the timer.
\<close>

definition heart_update :: "env \<Rightarrow> game \<Rightarrow> main_locals \<Rightarrow> game" where
  "heart_update ev s l =
     (if milliseconds s - heart_move_delay s \<ge> 400 \<and> game_over s = 0
      then let s1 = enemy_collision (move_hearts ev s) l
           in s1\<lparr>heart_move_delay := milliseconds s1\<rparr>
      else s)"

definition level2_collection :: "game \<Rightarrow> main_locals \<Rightarrow> game" where
  "level2_collection s l =
     (if current_level s = 2 then collect_heart4 (collect_heart3 s l) l else s)"

text \<open>The game-over and win menu (main.c 1157-1209); \<open>!v\<close> is 1 for 0 and 0 otherwise.\<close>

definition toggle_selection :: "game \<Rightarrow> game" where
  "toggle_selection s =
     (do_delay 200 s)\<lparr>game_over_selection := (if game_over_selection s = 0 then 1 else 0)\<rparr>"

definition game_over_menu :: "env \<Rightarrow> game \<Rightarrow> main_locals \<Rightarrow> game \<times> main_locals" where
  "game_over_menu ev s l =
     (if game_over s \<noteq> 0 \<or> game_won s \<noteq> 0 then
        let s1 = (if down_pressed ev (milliseconds s) then toggle_selection s else s);
            s2 = (if up_pressed ev (milliseconds s1) then toggle_selection s1 else s1)
        in if right_pressed ev (milliseconds s2) then
             let s3 = do_delay 200 s2
             in if game_over_selection s3 = 0 then
                  (initEnemies
                     (s3\<lparr>current_level := 1, game_over := 0, game_won := 0,
                         heart1_eaten := 0, heart2_eaten := 0, heart3_eaten := 0,
                         heart4_eaten := 0, show_game_over_menu := 0,
                         heart1_x := 40, heart1_y := 80, heart2_x := 60, heart2_y := 90\<rparr>),
                   l\<lparr>main_x := 50, main_y := 50, main_oldx := 50, main_oldy := 50\<rparr>)
                else (s3\<lparr>in_menu := 1, show_game_over_menu := 0, current_level := 1\<rparr>, l)
           else (s2, l)
      else (s, l))"

text \<open>One pass of the \<open>while (1)\<close> loop when \<open>in_menu\<close> is 0 (main.c 908-1211).\<close>

definition playing_iteration :: "env \<Rightarrow> game \<Rightarrow> main_locals \<Rightarrow> game \<times> main_locals" where
  "playing_iteration ev s l =
     (let (s3, l3) = game_state_updates ev s l;
          s4 = heart_update ev s3 l3;
          s5 = level2_collection s4 l3;
          (s6, l6) = game_over_menu ev s5 l3
      in (do_delay 20 s6, l6))"

subsection \<open>The tick interrupt: \<open>SysTick_Handler\<close> (main.c 1225-1264)\<close>

text \<open>
  The state the handler owns: the counter, the tune descriptor and its two static
  variables. \<open>background_tune_notes\<close> is \<open>None\<close> for the null pointer. \<open>index\<close> and
  \<open>current_note_timer\<close> are C \<open>int\<close>s that are compared with and loaded from
  \<open>uint32_t\<close> values, which C does on the 32-bit patterns.
\<close>

record tune =
  ticks :: uint32_t
  background_tune_notes :: "uint32_t list option"
  background_tune_times :: "uint32_t list"
  background_tune_note_count :: uint32_t
  background_repeat_tune :: uint32_t
  index :: uint32_t
  current_note_timer :: uint32_t

text \<open>A read \<open>a[i]\<close> of an array; \<open>None\<close> is a read past its end.\<close>

definition read_at :: "uint32_t list \<Rightarrow> uint32_t \<Rightarrow> uint32_t option" where
  "read_at a i = (if unat i < length a then Some (a ! unat i) else None)"

text \<open>
  The block \<open>if (current_note_timer == 0) { ... }\<close> of the handler (main.c 1234-1256):
  the new state and the argument of \<open>playNote\<close> when it is called (\<open>None\<close> when no
  tone is requested); the outer \<open>None\<close> is a read past an array.
\<close>

definition advance_note :: "uint32_t list \<Rightarrow> tune \<Rightarrow> (tune \<times> uint32_t option) option" where
  "advance_note notes s =
     (if current_note_timer s = 0 then
        let s1 = s\<lparr>index := index s + 1\<rparr>
        in if index s1 \<ge> background_tune_note_count s1 then
             if background_repeat_tune s1 = 0
             then Some (s1\<lparr>background_tune_notes := None\<rparr>, None)
             else Some (s1\<lparr>index := 0\<rparr>, None)
           else
             (case (read_at (background_tune_times s1) (index s1), read_at notes (index s1)) of
                (Some t, Some n) \<Rightarrow> Some (s1\<lparr>current_note_timer := t\<rparr>, Some n)
              | _ \<Rightarrow> None)
      else Some (s, None))"

definition SysTick_Handler :: "tune \<Rightarrow> (tune \<times> uint32_t option) option" where
  "SysTick_Handler s =
     (let s0 = s\<lparr>ticks := ticks s + 1\<rparr>
      in case background_tune_notes s0 of
           None \<Rightarrow> Some (s0, None)
         | Some notes \<Rightarrow>
             (case advance_note notes s0 of
                None \<Rightarrow> None
              | Some (s1, note) \<Rightarrow>
                  if current_note_timer s1 \<noteq> 0
                  then Some (s1\<lparr>current_note_timer := current_note_timer s1 - 1\<rparr>, note)
                  else Some (s1, note)))"

text \<open>The handler run for a number of ticks, with the tones it requested, oldest first.\<close>

fun run_ticks :: "nat \<Rightarrow> tune \<Rightarrow> (tune \<times> uint32_t list) option" where
  "run_ticks 0 s = Some (s, [])"
| "run_ticks (Suc n) s =
     (case SysTick_Handler s of
        None \<Rightarrow> None
      | Some (s1, note) \<Rightarrow>
          (case run_ticks n s1 of
             None \<Rightarrow> None
           | Some (s2, notes) \<Rightarrow> Some (s2, (case note of None \<Rightarrow> [] | Some v \<Rightarrow> [v]) @ notes)))"

subsection \<open>Predicates and inputs used in the statements\<close>

text \<open>All four hearts lie within the clamp bounds of the drift.\<close>

definition hearts_in_bounds :: "game \<Rightarrow> bool" where
  "hearts_in_bounds s \<longleftrightarrow>
     heart1_x s \<le> 115 \<and> heart1_y s \<le> 144 \<and> heart2_x s \<le> 115 \<and> heart2_y s \<le> 144 \<and>
     heart3_x s \<le> 115 \<and> heart3_y s \<le> 144 \<and> heart4_x s \<le> 115 \<and> heart4_y s \<le> 144"

text \<open>No button is pressed, no serial character arrives and \<open>rand\<close> returns 0.\<close>

definition idle_env :: env where
  "idle_env = \<lparr> right_pressed = (\<lambda>t. False), left_pressed = (\<lambda>t. False),
                 down_pressed = (\<lambda>t. False), up_pressed = (\<lambda>t. False),
                 serial_in = (\<lambda>t. 0), rand_value = (\<lambda>k. 0) \<rparr>"

text \<open>
  The array has its six entries and every active enemy has speed 1 and lies within
  the clamp bounds of \<open>moveEnemies\<close>.
\<close>

definition enemies_ok :: "game \<Rightarrow> bool" where
  "enemies_ok s \<longleftrightarrow>
     length (enemies s) = MAX_ENEMIES \<and>
     (\<forall>e \<in> set (enemies s). active e \<noteq> 0 \<longrightarrow> speed e = 1 \<and> e_x e \<le> 115 \<and> e_y e \<le> 144)"

text \<open>The sum of the eaten flags that \<open>checkWinCondition\<close> computes.\<close>

definition hearts_total :: "game \<Rightarrow> int" where
  "hearts_total s = heart1_eaten s + heart2_eaten s
       + (if current_level s = 2 then heart3_eaten s + heart4_eaten s else 0)"

text \<open>The right button is held; nothing else happens.\<close>

definition hold_right :: env where
  "hold_right = idle_env\<lparr>right_pressed := (\<lambda>t. True)\<rparr>"

text \<open>The state in which play starts: the globals after \<open>case 0\<close> of the menu.\<close>

definition level1_game :: game where
  "level1_game = fst (start_new_game initial_game initial_locals)"

text \<open>
  Level 1 with heart 1 already eaten, heart 2 at \<open>(60,90)\<close> and the player one step to
  its left, 100 ticks after the last heart update and 10 ticks after the last enemy
  update.
\<close>

definition pickup_game :: game where
  "pickup_game =
     level1_game\<lparr>milliseconds := 5000, pumpkin_move_delay := 4990, heart_move_delay := 4900,
        heart1_eaten := 1, hearts_collected := 1\<rparr>"

definition pickup_locals :: main_locals where
  "pickup_locals = \<lparr> main_x = 59, main_y = 90, main_oldx = 59, main_oldy = 90 \<rparr>"

text \<open>
  Level 1 with the pumpkin at \<open>(45,45)\<close>, its box over the player at \<open>(50,50)\<close>, 100
  ticks after the last heart update and 10 ticks after the last enemy update.
\<close>

definition caught_game :: game where
  "caught_game =
     level1_game\<lparr>milliseconds := 3000, pumpkin_move_delay := 2990, heart_move_delay := 2900,
        enemies := (enemies level1_game)[0 := \<lparr> e_x = 45, e_y = 45, active = 1, speed = 1 \<rparr>]\<rparr>"

text \<open>The condition of \<open>enemies_ok\<close> on one enemy.\<close>

definition enemy_ok :: "Enemy \<Rightarrow> bool" where
  "enemy_ok e \<longleftrightarrow> (active e \<noteq> 0 \<longrightarrow> speed e = 1 \<and> e_x e \<le> 115 \<and> e_y e \<le> 144)"

text \<open>
  The level is 1 or 2, and a game on level 1 outside the menu is not won.
\<close>

definition level_ok :: "game \<Rightarrow> bool" where
  "level_ok s \<longleftrightarrow>
     (current_level s = 1 \<or> current_level s = 2) \<and>
     (current_level s = 1 \<and> in_menu s = 0 \<longrightarrow> game_won s = 0)"

section \<open>Properties\<close>

subsection \<open>Containment\<close>

lemma isInside_unat:
  "isInside x1 y1 w h px py \<noteq> 0 \<longleftrightarrow>
     unat x1 \<le> unat px \<and> unat px \<le> (unat x1 + unat w) mod 65536 \<and>
     unat y1 \<le> unat py \<and> unat py \<le> (unat y1 + unat h) mod 65536"
  by (auto simp add: isInside_def Let_def word_le_nat_alt unat_word_ariths)

lemma isInside_values: "isInside x1 y1 w h px py = 0 \<or> isInside x1 y1 w h px py = 1"
  by (simp add: isInside_def Let_def)

text \<open>
  Claim C5 (amended). The corner \<open>x2 = x1 + w\<close> is stored in a \<open>uint16_t\<close>, so
  \<open>isInside\<close> compares against \<open>(x1 + w) mod 65536\<close> and \<open>(y1 + h) mod 65536\<close>:
  it is the closed-interval test \<open>x1 \<le> px \<le> x1 + w\<close> and \<open>y1 \<le> py \<le> y1 + h\<close>
  for every rectangle whose corner sums stay below \<open>65536\<close>. For the rectangle at
  \<open>(10,10)\<close> sized \<open>12 x 16\<close>, \<open>(10,10)\<close> and \<open>(22,26)\<close> are inside and \<open>(23,10)\<close>
  is not.
\<close>

theorem isInside_closed_interval:
  "(isInside x1 y1 w h px py \<noteq> 0 \<longleftrightarrow>
      unat x1 \<le> unat px \<and> unat px \<le> (unat x1 + unat w) mod 65536 \<and>
      unat y1 \<le> unat py \<and> unat py \<le> (unat y1 + unat h) mod 65536) \<and>
   (unat x1 + unat w < 65536 \<and> unat y1 + unat h < 65536 \<longrightarrow>
      (isInside x1 y1 w h px py \<noteq> 0 \<longleftrightarrow>
         unat x1 \<le> unat px \<and> unat px \<le> unat x1 + unat w \<and>
         unat y1 \<le> unat py \<and> unat py \<le> unat y1 + unat h)) \<and>
   isInside 10 10 12 16 10 10 = 1 \<and>
   isInside 10 10 12 16 22 26 = 1 \<and>
   isInside 10 10 12 16 23 10 = 0"
proof -
  have general: "isInside x1 y1 w h px py \<noteq> 0 \<longleftrightarrow>
      unat x1 \<le> unat px \<and> unat px \<le> (unat x1 + unat w) mod 65536 \<and>
      unat y1 \<le> unat py \<and> unat py \<le> (unat y1 + unat h) mod 65536"
    by (rule isInside_unat)
  have examples: "isInside 10 10 12 16 10 10 = 1" "isInside 10 10 12 16 22 26 = 1"
      "isInside 10 10 12 16 23 10 = 0"
    by (simp_all add: isInside_def)
  show ?thesis using general examples by simp
qed

theorem isInside_closed_interval_witness:
  "unat (10::uint16_t) + unat (12::uint16_t) < 65536 \<and>
   unat (10::uint16_t) + unat (16::uint16_t) < 65536 \<and>
   isInside 10 10 12 16 22 26 \<noteq> 0"
  using isInside_closed_interval [of 10 10 12 16 22 26] by simp

text \<open>
  The claim as stated, for all rectangle parameters, fails where the corner wraps: the
  rectangle at \<open>x1 = 65530\<close> of width \<open>12\<close> has \<open>x2 = 6\<close>, and the point
  \<open>(65535, 0)\<close>, which lies in \<open>[65530, 65542] x [0, 16]\<close>, is reported outside.
\<close>

theorem isInside_overflow_counterexample:
  "\<not> (isInside 65530 0 12 16 65535 0 \<noteq> 0 \<longleftrightarrow>
        unat (65530::uint16_t) \<le> unat (65535::uint16_t) \<and>
        unat (65535::uint16_t) \<le> unat (65530::uint16_t) + unat (12::uint16_t) \<and>
        unat (0::uint16_t) \<le> unat (0::uint16_t) \<and>
        unat (0::uint16_t) \<le> unat (0::uint16_t) + unat (16::uint16_t))"
  by (simp add: isInside_def)

subsection \<open>Delay\<close>

lemma tick_distance:
  fixes ms end_time :: uint32_t
  assumes "ms \<noteq> end_time"
  shows "Suc (unat (end_time - (ms + 1))) = unat (end_time - ms)"
proof -
  have nz: "end_time - ms \<noteq> 0" using assms by simp
  have e1: "end_time - (ms + 1) = (end_time - ms) - 1" by (simp add: algebra_simps)
  have e2: "unat ((end_time - ms) - 1) = unat (end_time - ms) - 1"
    using nz by (rule unat_minus_one)
  have e3: "unat (end_time - ms) \<noteq> 0" using nz by (simp add: unat_eq_zero)
  have "unat (end_time - (ms + 1)) = unat (end_time - ms) - 1"
    by (simp only: e1 e2)
  with e3 show ?thesis by arith
qed

lemma delay_loop_eq: "delay_loop e ms n = (e, n + unat (e - ms))"
proof (induction e ms n rule: delay_loop.induct)
  case (1 e ms n)
  show ?case
  proof (cases "ms = e")
    case True
    then show ?thesis by (simp add: delay_loop.simps)
  next
    case False
    have "delay_loop e ms n = delay_loop e (ms + 1) (Suc n)"
      using False by (subst delay_loop.simps) simp
    also have "\<dots> = (e, Suc n + unat (e - (ms + 1)))"
      using 1 False by simp
    finally show ?thesis
      using tick_distance [OF False] by simp
  qed
qed

lemma delay_eq: "delay d ms = (ms + d, unat d)"
  by (simp add: delay_def delay_loop_eq add.commute)

lemma after_delay_eq [simp]: "after_delay d ms = ms + d"
  by (simp add: after_delay_def delay_eq)

lemma no_earlier_tick:
  fixes d t :: uint32_t
  assumes "k < unat d"
  shows "t + of_nat k \<noteq> t + d"
proof
  assume "t + of_nat k = t + d"
  then have "(of_nat k :: uint32_t) = d" by simp
  then have "unat (of_nat k :: uint32_t) = unat d" by simp
  moreover have "unat d < 2 ^ LENGTH(32)" by (rule unsigned_less)
  with assms have "k < 2 ^ LENGTH(32)" by (rule less_trans)
  then have "unat (of_nat k :: uint32_t) = k" by (simp add: of_nat_inverse)
  ultimately show False using assms by simp
qed


text \<open>
  Claim C6. A \<open>delay d\<close> started when the counter reads \<open>t1\<close> returns when the
  counter reads \<open>t1 + d\<close> (modulo \<open>2 ^ 32\<close>), after exactly \<open>unat d\<close> ticks; at no
  earlier tick does the counter equal the end time; and \<open>delay 0\<close> returns at once,
  having waited for no tick.
\<close>

theorem delay_unblocks_exactly:
  "delay d t1 = (t1 + d, unat d) \<and>
   (\<forall>k<unat d. t1 + of_nat k \<noteq> t1 + d) \<and>
   delay 0 t1 = (t1, 0)"
proof -
  have a: "delay d t1 = (t1 + d, unat d)" by (rule delay_eq)
  have b: "\<forall>k<unat d. t1 + of_nat k \<noteq> t1 + d" using no_earlier_tick by blast
  have c: "delay 0 t1 = (t1, 0)" by (simp add: delay_eq)
  show ?thesis using a b c by blast
qed

theorem delay_unblocks_exactly_witness:
  "delay 3 4294967295 = (2, 3) \<and> (2::nat) < unat (3::uint32_t) \<and>
   (4294967295::uint32_t) + of_nat 2 \<noteq> 4294967295 + 3"
  using delay_unblocks_exactly [of 3 4294967295] by simp

subsection \<open>Wall query\<close>

lemma maze_rows: "list_all (\<lambda>r. length r = 16) maze"
  by (simp add: maze_def)

lemma maze_length: "length maze = 20"
  by (simp add: maze_def)

lemma grid_int: "uint (x::uint16_t) div 8 = int (unat x div 8)"
  by (simp add: zdiv_int)

lemma tile_at_maze:
  assumes "gx < 16" "gy < 20"
  shows "tile_at maze (int gy) (int gx) = Some (maze ! gy ! gx)"
proof -
  have "length (maze ! gy) = 16"
    using maze_rows assms(2) by (simp add: list_all_length maze_length)
  then show ?thesis using assms by (simp add: tile_at_def maze_length)
qed

text \<open>
  Claim C9. For every pixel coordinate the query returns a value (it never reads outside
  the array): the cell is \<open>(x div 8, y div 8)\<close>; a cell outside the \<open>16 x 20\<close> grid
  gives \<open>1\<close> (collision), and a cell inside gives \<open>1\<close> exactly when the tile of
  \<open>maze\<close> there is \<open>1\<close> (wall).
\<close>

theorem isWallCollision_fail_closed:
  "\<exists>b. isWallCollision x y = Some b \<and>
       (\<not> (unat x div 8 < 16 \<and> unat y div 8 < 20) \<longrightarrow> b = 1) \<and>
       (unat x div 8 < 16 \<and> unat y div 8 < 20 \<longrightarrow>
          b = (if maze ! (unat y div 8) ! (unat x div 8) = 1 then 1 else 0))"
  by (simp add: isWallCollision_def WALL_SIZE_def Let_def grid_int tile_at_maze)

theorem isWallCollision_fail_closed_witness:
  "unat (8::uint16_t) div 8 < 16 \<and> unat (8::uint16_t) div 8 < 20 \<and>
   isWallCollision 8 8 = Some 0 \<and>
   \<not> (unat (128::uint16_t) div 8 < 16 \<and> unat (0::uint16_t) div 8 < 20) \<and>
   isWallCollision 128 0 = Some 1"
  using isWallCollision_fail_closed [of 8 8] isWallCollision_fail_closed [of 128 0]
  by (auto simp add: maze_def)

subsection \<open>Word arithmetic of the drift and the pursuit\<close>

lemma drift_le: "drift pos dir hi \<le> hi"
  by (auto simp add: drift_def Let_def)

lemma small_word_cases:
  fixes p :: uint16_t
  assumes "p < 3"
  shows "p = 0 \<or> p = 1 \<or> p = 2"
proof -
  have "unat p < 3" using assms by (simp add: word_less_nat_alt)
  then have "unat p = 0 \<or> unat p = 1 \<or> unat p = 2" by arith
  then show ?thesis
    by (auto simp add: word_unat_eq_iff)
qed

lemma wrap_below_three:
  fixes p :: uint16_t
  assumes "p < 3"
  shows "65533 \<le> p + word_of_int (3 * - 1)"
  using small_word_cases [OF assms] by auto

lemma drift_wraps:
  fixes p hi :: uint16_t
  assumes "p < 3" "hi \<le> 65533"
  shows "drift p (- 1) hi = hi"
proof -
  have "65533 \<le> p + word_of_int (3 * - 1)" using assms(1) by (rule wrap_below_three)
  with assms(2) have "hi \<le> p + word_of_int (3 * - 1)" by (rule order_trans)
  then show ?thesis by (auto simp add: drift_def Let_def)
qed

lemma inc_unat:
  fixes x p :: uint16_t
  assumes "x < p"
  shows "unat (x + 1) = unat x + 1"
proof -
  have "unat p < 2 ^ LENGTH(16)" by (rule unsigned_less)
  moreover have "unat x < unat p" using assms by (simp add: word_less_nat_alt)
  ultimately have "unat x + unat (1::uint16_t) < 2 ^ LENGTH(16)" by simp
  then have "unat (x + 1) = unat x + unat (1::uint16_t)" by (simp only: unat_add_lem [THEN iffD1])
  then show ?thesis by simp
qed

lemma dec_unat:
  fixes x p :: uint16_t
  assumes "p < x"
  shows "unat (x - 1) = unat x - 1"
proof -
  have "x \<noteq> 0" using assms by auto
  then show ?thesis by (rule unat_minus_one)
qed


lemma pursue_axis:
  fixes x p hi :: uint16_t
  assumes "x \<le> hi"
  shows "(let x1 = (if x < p then x + 1 else x);
              x2 = (if x1 > p then x1 - 1 else x1)
          in if x2 \<le> 0 then 0 else if x2 \<ge> hi then hi else x2)
         = (if x < p \<and> x < hi then x + 1 else if p < x then x - 1 else x)"
proof (cases "x < p")
  case True
  have u: "unat (x + 1) = unat x + 1" using True by (rule inc_unat)
  show ?thesis
    using True u assms
    by (auto simp add: Let_def word_le_nat_alt word_less_nat_alt word_unat_eq_iff)
next
  case False
  show ?thesis
  proof (cases "p < x")
    case True
    have u: "unat (x - 1) = unat x - 1" using True by (rule dec_unat)
    show ?thesis
      using True u assms
      by (auto simp add: Let_def word_le_nat_alt word_less_nat_alt word_unat_eq_iff)
  next
    case False
    with \<open>\<not> x < p\<close> show ?thesis
      using assms by (auto simp add: Let_def)
  qed
qed

lemma still_axis:
  fixes x p hi :: uint16_t
  assumes "x \<le> hi"
  shows "(let x1 = (if x < p then x + 0 else x);
              x2 = (if x1 > p then x1 - 0 else x1)
          in if x2 \<le> 0 then 0 else if x2 \<ge> hi then hi else x2) = x"
  using assms by (auto simp add: Let_def)


lemma moveEnemy_full_speed:
  assumes "active e \<noteq> 0" "e_x e \<le> 115" "e_y e \<le> 144"
    and "if level = 2 then ms mod 2 = 0 else speed e = 1"
  shows "moveEnemy level ms px py e =
           e\<lparr>e_x := (if e_x e < px \<and> e_x e < 115 then e_x e + 1
                       else if px < e_x e then e_x e - 1 else e_x e),
              e_y := (if e_y e < py \<and> e_y e < 144 then e_y e + 1
                       else if py < e_y e then e_y e - 1 else e_y e)\<rparr>"
proof -
  have cs: "(if level = 2 then (if ms mod 2 = 0 then 1 else 0) else speed e) = (1::int)"
    using assms(4) by (simp split: if_splits)
  have act: "(active e \<noteq> 0) = True" using assms(1) by simp
  show ?thesis
    by (simp only: moveEnemy_def cs act if_True Let_def word_of_int_1
        pursue_axis [OF assms(2), of px, unfolded Let_def]
        pursue_axis [OF assms(3), of py, unfolded Let_def])
qed

lemma moveEnemy_stutter:
  assumes "active e \<noteq> 0" "e_x e \<le> 115" "e_y e \<le> 144"
    and "level = 2" "ms mod 2 \<noteq> 0"
  shows "moveEnemy level ms px py e = e"
proof -
  have cs: "(if level = 2 then (if ms mod 2 = 0 then 1 else 0) else speed e) = (0::int)"
    using assms(4,5) by simp
  have act: "(active e \<noteq> 0) = True" using assms(1) by simp
  have "moveEnemy level ms px py e = e\<lparr>e_x := e_x e, e_y := e_y e\<rparr>"
    by (simp only: moveEnemy_def cs act if_True Let_def word_of_int_0
        still_axis [OF assms(2), of px, unfolded Let_def]
        still_axis [OF assms(3), of py, unfolded Let_def])
  then show ?thesis by simp
qed

lemma moveEnemy_inactive: "active e = 0 \<Longrightarrow> moveEnemy level ms px py e = e"
  by (simp add: moveEnemy_def)

lemma moveEnemies_pass:
  assumes "game_won s = 0"
    and "\<not> milliseconds s - pumpkin_move_delay s < (if current_level s = 1 then 30 else 65)"
  shows "enemies (moveEnemies px py s) =
           map (moveEnemy (current_level s) (milliseconds s) px py) (enemies s)"
  using assms by (simp add: moveEnemies_def Let_def)


subsection \<open>Heart drift\<close>

lemma move_heart1_frame [simp]:
  "heart1_eaten (move_heart1 ev s) = heart1_eaten s"
  "heart2_eaten (move_heart1 ev s) = heart2_eaten s"
  "heart2_x (move_heart1 ev s) = heart2_x s"
  "heart2_y (move_heart1 ev s) = heart2_y s"
  "heart3_eaten (move_heart1 ev s) = heart3_eaten s"
  "heart3_x (move_heart1 ev s) = heart3_x s"
  "heart3_y (move_heart1 ev s) = heart3_y s"
  "heart4_eaten (move_heart1 ev s) = heart4_eaten s"
  "heart4_x (move_heart1 ev s) = heart4_x s"
  "heart4_y (move_heart1 ev s) = heart4_y s"
  "current_level (move_heart1 ev s) = current_level s"
  by (simp_all add: move_heart1_def Let_def)

lemma move_heart1_bounds [simp]:
  "heart1_x s \<le> 115 \<Longrightarrow> heart1_x (move_heart1 ev s) \<le> 115"
  "heart1_y s \<le> 144 \<Longrightarrow> heart1_y (move_heart1 ev s) \<le> 144"
  by (simp_all add: move_heart1_def Let_def drift_le)

lemma move_heart1_eaten_fixed:
  "heart1_eaten s \<noteq> 0 \<Longrightarrow> move_heart1 ev s = s"
  by (simp add: move_heart1_def)

lemma move_heart2_frame [simp]:
  "heart1_eaten (move_heart2 ev s) = heart1_eaten s"
  "heart1_x (move_heart2 ev s) = heart1_x s"
  "heart1_y (move_heart2 ev s) = heart1_y s"
  "heart2_eaten (move_heart2 ev s) = heart2_eaten s"
  "heart3_eaten (move_heart2 ev s) = heart3_eaten s"
  "heart3_x (move_heart2 ev s) = heart3_x s"
  "heart3_y (move_heart2 ev s) = heart3_y s"
  "heart4_eaten (move_heart2 ev s) = heart4_eaten s"
  "heart4_x (move_heart2 ev s) = heart4_x s"
  "heart4_y (move_heart2 ev s) = heart4_y s"
  "current_level (move_heart2 ev s) = current_level s"
  by (simp_all add: move_heart2_def Let_def)

lemma move_heart2_bounds [simp]:
  "heart2_x s \<le> 115 \<Longrightarrow> heart2_x (move_heart2 ev s) \<le> 115"
  "heart2_y s \<le> 144 \<Longrightarrow> heart2_y (move_heart2 ev s) \<le> 144"
  by (simp_all add: move_heart2_def Let_def drift_le)

lemma move_heart2_eaten_fixed:
  "heart2_eaten s \<noteq> 0 \<Longrightarrow> move_heart2 ev s = s"
  by (simp add: move_heart2_def)

lemma move_heart3_frame [simp]:
  "heart1_eaten (move_heart3 ev s) = heart1_eaten s"
  "heart1_x (move_heart3 ev s) = heart1_x s"
  "heart1_y (move_heart3 ev s) = heart1_y s"
  "heart2_eaten (move_heart3 ev s) = heart2_eaten s"
  "heart2_x (move_heart3 ev s) = heart2_x s"
  "heart2_y (move_heart3 ev s) = heart2_y s"
  "heart3_eaten (move_heart3 ev s) = heart3_eaten s"
  "heart4_eaten (move_heart3 ev s) = heart4_eaten s"
  "heart4_x (move_heart3 ev s) = heart4_x s"
  "heart4_y (move_heart3 ev s) = heart4_y s"
  "current_level (move_heart3 ev s) = current_level s"
  by (simp_all add: move_heart3_def Let_def)

lemma move_heart3_bounds [simp]:
  "heart3_x s \<le> 115 \<Longrightarrow> heart3_x (move_heart3 ev s) \<le> 115"
  "heart3_y s \<le> 144 \<Longrightarrow> heart3_y (move_heart3 ev s) \<le> 144"
  by (simp_all add: move_heart3_def Let_def drift_le)

lemma move_heart3_eaten_fixed:
  "heart3_eaten s \<noteq> 0 \<Longrightarrow> move_heart3 ev s = s"
  by (simp add: move_heart3_def)

lemma move_heart4_frame [simp]:
  "heart1_eaten (move_heart4 ev s) = heart1_eaten s"
  "heart1_x (move_heart4 ev s) = heart1_x s"
  "heart1_y (move_heart4 ev s) = heart1_y s"
  "heart2_eaten (move_heart4 ev s) = heart2_eaten s"
  "heart2_x (move_heart4 ev s) = heart2_x s"
  "heart2_y (move_heart4 ev s) = heart2_y s"
  "heart3_eaten (move_heart4 ev s) = heart3_eaten s"
  "heart3_x (move_heart4 ev s) = heart3_x s"
  "heart3_y (move_heart4 ev s) = heart3_y s"
  "heart4_eaten (move_heart4 ev s) = heart4_eaten s"
  "current_level (move_heart4 ev s) = current_level s"
  by (simp_all add: move_heart4_def Let_def)

lemma move_heart4_bounds [simp]:
  "heart4_x s \<le> 115 \<Longrightarrow> heart4_x (move_heart4 ev s) \<le> 115"
  "heart4_y s \<le> 144 \<Longrightarrow> heart4_y (move_heart4 ev s) \<le> 144"
  by (simp_all add: move_heart4_def Let_def drift_le)

lemma move_heart4_eaten_fixed:
  "heart4_eaten s \<noteq> 0 \<Longrightarrow> move_heart4 ev s = s"
  by (simp add: move_heart4_def)

lemma move_hearts_in_bounds:
  "hearts_in_bounds s \<Longrightarrow> hearts_in_bounds (move_hearts ev s)"
  by (simp add: hearts_in_bounds_def move_hearts_def Let_def)

lemma move_hearts_eaten:
  "heart1_eaten (move_hearts ev s) = heart1_eaten s"
  "heart2_eaten (move_hearts ev s) = heart2_eaten s"
  "heart3_eaten (move_hearts ev s) = heart3_eaten s"
  "heart4_eaten (move_hearts ev s) = heart4_eaten s"
  by (simp_all add: move_hearts_def Let_def)

lemma move_hearts_eaten_fixed:
  "heart1_eaten s \<noteq> 0 \<Longrightarrow>
     heart1_x (move_hearts ev s) = heart1_x s \<and> heart1_y (move_hearts ev s) = heart1_y s"
  "heart2_eaten s \<noteq> 0 \<Longrightarrow>
     heart2_x (move_hearts ev s) = heart2_x s \<and> heart2_y (move_hearts ev s) = heart2_y s"
  "heart3_eaten s \<noteq> 0 \<Longrightarrow>
     heart3_x (move_hearts ev s) = heart3_x s \<and> heart3_y (move_hearts ev s) = heart3_y s"
  "heart4_eaten s \<noteq> 0 \<Longrightarrow>
     heart4_x (move_hearts ev s) = heart4_x s \<and> heart4_y (move_hearts ev s) = heart4_y s"
  by (simp_all add: move_hearts_def Let_def move_heart1_eaten_fixed move_heart2_eaten_fixed
      move_heart3_eaten_fixed move_heart4_eaten_fixed)

lemma drift_steps_eaten:
  "heart1_eaten ((move_hearts ev ^^ n) s) = heart1_eaten s"
  "heart2_eaten ((move_hearts ev ^^ n) s) = heart2_eaten s"
  "heart3_eaten ((move_hearts ev ^^ n) s) = heart3_eaten s"
  "heart4_eaten ((move_hearts ev ^^ n) s) = heart4_eaten s"
  by (induction n) (simp_all add: move_hearts_eaten)

lemma drift_steps_in_bounds:
  "hearts_in_bounds s \<Longrightarrow> hearts_in_bounds ((move_hearts ev ^^ n) s)"
  by (induction n) (simp_all add: move_hearts_in_bounds)

lemma drift_steps_eaten_fixed:
  "heart1_eaten s \<noteq> 0 \<Longrightarrow>
     heart1_x ((move_hearts ev ^^ n) s) = heart1_x s \<and> heart1_y ((move_hearts ev ^^ n) s) = heart1_y s"
  "heart2_eaten s \<noteq> 0 \<Longrightarrow>
     heart2_x ((move_hearts ev ^^ n) s) = heart2_x s \<and> heart2_y ((move_hearts ev ^^ n) s) = heart2_y s"
  "heart3_eaten s \<noteq> 0 \<Longrightarrow>
     heart3_x ((move_hearts ev ^^ n) s) = heart3_x s \<and> heart3_y ((move_hearts ev ^^ n) s) = heart3_y s"
  "heart4_eaten s \<noteq> 0 \<Longrightarrow>
     heart4_x ((move_hearts ev ^^ n) s) = heart4_x s \<and> heart4_y ((move_hearts ev ^^ n) s) = heart4_y s"
  by (induction n) (simp_all add: move_hearts_eaten_fixed drift_steps_eaten)

text \<open>
  Claim C7. Starting from heart positions within \<open>[0, 115] x [0, 144]\<close> (as the
  initial and the reset positions are), after any number \<open>n\<close> of drift steps every
  heart is within \<open>[0, 115] x [0, 144]\<close>, and a heart whose eaten flag is set has the
  position it had before the steps.
\<close>

theorem drift_keeps_hearts_in_bounds:
  assumes "hearts_in_bounds s"
  shows "hearts_in_bounds ((move_hearts ev ^^ n) s) \<and>
    (heart1_eaten s \<noteq> 0 \<longrightarrow>
       heart1_x ((move_hearts ev ^^ n) s) = heart1_x s \<and> heart1_y ((move_hearts ev ^^ n) s) = heart1_y s) \<and>
    (heart2_eaten s \<noteq> 0 \<longrightarrow>
       heart2_x ((move_hearts ev ^^ n) s) = heart2_x s \<and> heart2_y ((move_hearts ev ^^ n) s) = heart2_y s) \<and>
    (heart3_eaten s \<noteq> 0 \<longrightarrow>
       heart3_x ((move_hearts ev ^^ n) s) = heart3_x s \<and> heart3_y ((move_hearts ev ^^ n) s) = heart3_y s) \<and>
    (heart4_eaten s \<noteq> 0 \<longrightarrow>
       heart4_x ((move_hearts ev ^^ n) s) = heart4_x s \<and> heart4_y ((move_hearts ev ^^ n) s) = heart4_y s)"
  using assms drift_steps_in_bounds [where s = s and ev = ev and n = n]
    drift_steps_eaten_fixed [where s = s and ev = ev and n = n]
  by blast

lemma initial_hearts_in_bounds: "hearts_in_bounds initial_game"
  by (simp add: hearts_in_bounds_def initial_game_def)

theorem drift_keeps_hearts_in_bounds_witness:
  "hearts_in_bounds (initial_game\<lparr>heart2_eaten := 1\<rparr>) \<and>
   hearts_in_bounds ((move_hearts idle_env ^^ 3) (initial_game\<lparr>heart2_eaten := 1\<rparr>)) \<and>
   heart2_eaten (initial_game\<lparr>heart2_eaten := 1\<rparr>) \<noteq> 0 \<and>
   heart2_x ((move_hearts idle_env ^^ 3) (initial_game\<lparr>heart2_eaten := 1\<rparr>)) = 60 \<and>
   heart2_y ((move_hearts idle_env ^^ 3) (initial_game\<lparr>heart2_eaten := 1\<rparr>)) = 90"
proof -
  have h: "hearts_in_bounds (initial_game\<lparr>heart2_eaten := 1\<rparr>)"
    by (simp add: hearts_in_bounds_def initial_game_def)
  show ?thesis
    using h drift_keeps_hearts_in_bounds [OF h, where ev = idle_env and n = 3]
    by (simp add: initial_game_def)
qed

lemma wrap_below_three_minus:
  fixes p :: uint16_t
  assumes "p < 3"
  shows "65533 \<le> p - 3"
  using small_word_cases [OF assms] by auto

lemma move_heart_wraps:
  "heart1_eaten s = 0 \<Longrightarrow> heart1_x s < 3 \<Longrightarrow>
     rand_direction (rand_value ev (rand_calls s)) = - 1 \<Longrightarrow> heart1_x (move_heart1 ev s) = 115"
  "heart1_eaten s = 0 \<Longrightarrow> heart1_y s < 3 \<Longrightarrow>
     rand_direction (rand_value ev (rand_calls s + 1)) = - 1 \<Longrightarrow> heart1_y (move_heart1 ev s) = 144"
  "heart2_eaten s = 0 \<Longrightarrow> heart2_x s < 3 \<Longrightarrow>
     rand_direction (rand_value ev (rand_calls s)) = - 1 \<Longrightarrow> heart2_x (move_heart2 ev s) = 115"
  "heart2_eaten s = 0 \<Longrightarrow> heart2_y s < 3 \<Longrightarrow>
     rand_direction (rand_value ev (rand_calls s + 1)) = - 1 \<Longrightarrow> heart2_y (move_heart2 ev s) = 144"
  "heart3_eaten s = 0 \<Longrightarrow> heart3_x s < 3 \<Longrightarrow>
     rand_direction (rand_value ev (rand_calls s)) = - 1 \<Longrightarrow> heart3_x (move_heart3 ev s) = 115"
  "heart3_eaten s = 0 \<Longrightarrow> heart3_y s < 3 \<Longrightarrow>
     rand_direction (rand_value ev (rand_calls s + 1)) = - 1 \<Longrightarrow> heart3_y (move_heart3 ev s) = 144"
  "heart4_eaten s = 0 \<Longrightarrow> heart4_x s < 3 \<Longrightarrow>
     rand_direction (rand_value ev (rand_calls s)) = - 1 \<Longrightarrow> heart4_x (move_heart4 ev s) = 115"
  "heart4_eaten s = 0 \<Longrightarrow> heart4_y s < 3 \<Longrightarrow>
     rand_direction (rand_value ev (rand_calls s + 1)) = - 1 \<Longrightarrow> heart4_y (move_heart4 ev s) = 144"
  by (simp_all add: move_heart1_def move_heart2_def move_heart3_def move_heart4_def Let_def
      drift_wraps)

text \<open>
  Claim C10. For a heart that is not eaten and whose x coordinate is below 3, a drift
  step that picks the x direction \<open>-1\<close> computes \<open>x - 3\<close> in 16 bits, which is at
  least \<open>65533\<close>, and the test \<open>x >= 115\<close> then sets x to \<open>115\<close>; in the same way a
  y coordinate below 3 with y direction \<open>-1\<close> becomes \<open>144\<close>. This holds for each of
  the four hearts.
\<close>

theorem drift_wraps_to_far_bound:
  "(heart1_eaten s = 0 \<and> heart1_x s < 3 \<and> rand_direction (rand_value ev (rand_calls s)) = - 1
      \<longrightarrow> 65533 \<le> heart1_x s + word_of_int (3 * - 1) \<and> heart1_x (move_heart1 ev s) = 115) \<and>
   (heart1_eaten s = 0 \<and> heart1_y s < 3 \<and> rand_direction (rand_value ev (rand_calls s + 1)) = - 1
      \<longrightarrow> 65533 \<le> heart1_y s + word_of_int (3 * - 1) \<and> heart1_y (move_heart1 ev s) = 144) \<and>
   (heart2_eaten s = 0 \<and> heart2_x s < 3 \<and> rand_direction (rand_value ev (rand_calls s)) = - 1
      \<longrightarrow> 65533 \<le> heart2_x s + word_of_int (3 * - 1) \<and> heart2_x (move_heart2 ev s) = 115) \<and>
   (heart2_eaten s = 0 \<and> heart2_y s < 3 \<and> rand_direction (rand_value ev (rand_calls s + 1)) = - 1
      \<longrightarrow> 65533 \<le> heart2_y s + word_of_int (3 * - 1) \<and> heart2_y (move_heart2 ev s) = 144) \<and>
   (heart3_eaten s = 0 \<and> heart3_x s < 3 \<and> rand_direction (rand_value ev (rand_calls s)) = - 1
      \<longrightarrow> 65533 \<le> heart3_x s + word_of_int (3 * - 1) \<and> heart3_x (move_heart3 ev s) = 115) \<and>
   (heart3_eaten s = 0 \<and> heart3_y s < 3 \<and> rand_direction (rand_value ev (rand_calls s + 1)) = - 1
      \<longrightarrow> 65533 \<le> heart3_y s + word_of_int (3 * - 1) \<and> heart3_y (move_heart3 ev s) = 144) \<and>
   (heart4_eaten s = 0 \<and> heart4_x s < 3 \<and> rand_direction (rand_value ev (rand_calls s)) = - 1
      \<longrightarrow> 65533 \<le> heart4_x s + word_of_int (3 * - 1) \<and> heart4_x (move_heart4 ev s) = 115) \<and>
   (heart4_eaten s = 0 \<and> heart4_y s < 3 \<and> rand_direction (rand_value ev (rand_calls s + 1)) = - 1
      \<longrightarrow> 65533 \<le> heart4_y s + word_of_int (3 * - 1) \<and> heart4_y (move_heart4 ev s) = 144)"
  by (intro conjI impI; elim conjE; simp add: move_heart_wraps wrap_below_three_minus)

theorem drift_wraps_to_far_bound_witness:
  "heart1_eaten (initial_game\<lparr>heart1_x := 2, heart1_y := 1\<rparr>) = 0 \<and>
   heart1_x (initial_game\<lparr>heart1_x := 2, heart1_y := 1\<rparr>) < 3 \<and>
   heart1_y (initial_game\<lparr>heart1_x := 2, heart1_y := 1\<rparr>) < 3 \<and>
   rand_direction (rand_value idle_env (rand_calls (initial_game\<lparr>heart1_x := 2, heart1_y := 1\<rparr>))) = - 1 \<and>
   rand_direction (rand_value idle_env (rand_calls (initial_game\<lparr>heart1_x := 2, heart1_y := 1\<rparr>) + 1)) = - 1 \<and>
   heart1_x (move_heart1 idle_env (initial_game\<lparr>heart1_x := 2, heart1_y := 1\<rparr>)) = 115 \<and>
   heart1_y (move_heart1 idle_env (initial_game\<lparr>heart1_x := 2, heart1_y := 1\<rparr>)) = 144"
  using drift_wraps_to_far_bound [of "initial_game\<lparr>heart1_x := 2, heart1_y := 1\<rparr>" idle_env]
  by (simp add: initial_game_def idle_env_def rand_direction_def)

subsection \<open>Enemy pursuit\<close>

lemma moveEnemy_toward_x:
  assumes "active e \<noteq> 0" "e_x e \<le> 115" "e_y e \<le> 144" "speed e = 1"
  shows "(e_x e < px \<longrightarrow>
            unat (e_x e) \<le> unat (e_x (moveEnemy level ms px py e)) \<and>
            unat (e_x (moveEnemy level ms px py e)) \<le> unat (e_x e) + 1 \<and>
            unat (e_x (moveEnemy level ms px py e)) \<le> unat px) \<and>
         (px < e_x e \<longrightarrow>
            unat (e_x (moveEnemy level ms px py e)) \<le> unat (e_x e) \<and>
            unat (e_x e) \<le> unat (e_x (moveEnemy level ms px py e)) + 1 \<and>
            unat px \<le> unat (e_x (moveEnemy level ms px py e))) \<and>
         (e_x e = px \<longrightarrow> e_x (moveEnemy level ms px py e) = e_x e)"
proof (cases "level = 2 \<and> ms mod 2 \<noteq> 0")
  case True
  then have "moveEnemy level ms px py e = e"
    using assms by (simp add: moveEnemy_stutter)
  then show ?thesis by (simp add: word_less_nat_alt)
next
  case False
  then have full: "if level = 2 then ms mod 2 = 0 else speed e = 1"
    using assms(4) by auto
  have x': "e_x (moveEnemy level ms px py e) =
      (if e_x e < px \<and> e_x e < 115 then e_x e + 1
       else if px < e_x e then e_x e - 1 else e_x e)"
    by (simp add: moveEnemy_full_speed [OF assms(1-3) full])
  show ?thesis
  proof (intro conjI impI)
    assume lt: "e_x e < px"
    have u: "unat (e_x e + 1) = unat (e_x e) + 1" using lt by (rule inc_unat)
    have n: "\<not> px < e_x e" using lt by auto
    show "unat (e_x e) \<le> unat (e_x (moveEnemy level ms px py e))"
      using lt n u by (simp add: x')
    show "unat (e_x (moveEnemy level ms px py e)) \<le> unat (e_x e) + 1"
      using lt n u by (simp add: x')
    show "unat (e_x (moveEnemy level ms px py e)) \<le> unat px"
      using lt n u by (simp add: x' word_less_nat_alt)
  next
    assume gt: "px < e_x e"
    have u: "unat (e_x e - 1) = unat (e_x e) - 1" using gt by (rule dec_unat)
    have n: "\<not> e_x e < px" using gt by auto
    show "unat (e_x (moveEnemy level ms px py e)) \<le> unat (e_x e)"
      using gt n u by (simp add: x')
    show "unat (e_x e) \<le> unat (e_x (moveEnemy level ms px py e)) + 1"
      using gt n u by (simp add: x')
    show "unat px \<le> unat (e_x (moveEnemy level ms px py e))"
      using gt n u by (simp add: x' word_less_nat_alt)
  next
    assume "e_x e = px"
    then show "e_x (moveEnemy level ms px py e) = e_x e" by (simp add: x')
  qed
qed

lemma moveEnemy_toward_y:
  assumes "active e \<noteq> 0" "e_x e \<le> 115" "e_y e \<le> 144" "speed e = 1"
  shows "(e_y e < py \<longrightarrow>
            unat (e_y e) \<le> unat (e_y (moveEnemy level ms px py e)) \<and>
            unat (e_y (moveEnemy level ms px py e)) \<le> unat (e_y e) + 1 \<and>
            unat (e_y (moveEnemy level ms px py e)) \<le> unat py) \<and>
         (py < e_y e \<longrightarrow>
            unat (e_y (moveEnemy level ms px py e)) \<le> unat (e_y e) \<and>
            unat (e_y e) \<le> unat (e_y (moveEnemy level ms px py e)) + 1 \<and>
            unat py \<le> unat (e_y (moveEnemy level ms px py e))) \<and>
         (e_y e = py \<longrightarrow> e_y (moveEnemy level ms px py e) = e_y e)"
proof (cases "level = 2 \<and> ms mod 2 \<noteq> 0")
  case True
  then have "moveEnemy level ms px py e = e"
    using assms by (simp add: moveEnemy_stutter)
  then show ?thesis by (simp add: word_less_nat_alt)
next
  case False
  then have full: "if level = 2 then ms mod 2 = 0 else speed e = 1"
    using assms(4) by auto
  have y': "e_y (moveEnemy level ms px py e) =
      (if e_y e < py \<and> e_y e < 144 then e_y e + 1
       else if py < e_y e then e_y e - 1 else e_y e)"
    by (simp add: moveEnemy_full_speed [OF assms(1-3) full])
  show ?thesis
  proof (intro conjI impI)
    assume lt: "e_y e < py"
    have u: "unat (e_y e + 1) = unat (e_y e) + 1" using lt by (rule inc_unat)
    have n: "\<not> py < e_y e" using lt by auto
    show "unat (e_y e) \<le> unat (e_y (moveEnemy level ms px py e))"
      using lt n u by (simp add: y')
    show "unat (e_y (moveEnemy level ms px py e)) \<le> unat (e_y e) + 1"
      using lt n u by (simp add: y')
    show "unat (e_y (moveEnemy level ms px py e)) \<le> unat py"
      using lt n u by (simp add: y' word_less_nat_alt)
  next
    assume gt: "py < e_y e"
    have u: "unat (e_y e - 1) = unat (e_y e) - 1" using gt by (rule dec_unat)
    have n: "\<not> e_y e < py" using gt by auto
    show "unat (e_y (moveEnemy level ms px py e)) \<le> unat (e_y e)"
      using gt n u by (simp add: y')
    show "unat (e_y e) \<le> unat (e_y (moveEnemy level ms px py e)) + 1"
      using gt n u by (simp add: y')
    show "unat py \<le> unat (e_y (moveEnemy level ms px py e))"
      using gt n u by (simp add: y' word_less_nat_alt)
  next
    assume "e_y e = py"
    then show "e_y (moveEnemy level ms px py e) = e_y e" by (simp add: y')
  qed
qed


lemma initEnemies_level1_enemies:
  "enemies (initEnemies initial_game) =
     \<lparr> e_x = 10, e_y = 10, active = 1, speed = 1 \<rparr> #
     replicate 5 \<lparr> e_x = 0, e_y = 0, active = 0, speed = 0 \<rparr>"
  by (simp add: initEnemies_def initial_game_def MAX_ENEMIES_def eval_nat_numeral)

text \<open>
  Claim C8. On an enemy-update pass (the game is not won and the level's delay has
  elapsed), in a state where the enemies are as \<open>initEnemies\<close> and \<open>moveEnemies\<close> leave
  them (\<open>enemies_ok\<close>, which holds throughout play), every active enemy moves on each
  axis by at most one unit and never away from or past the player: towards a larger coordinate it goes up by 0 or 1 and stays at or below
  the player's, towards a smaller one it goes down by 0 or 1 and stays at or above it,
  and on an equal one it stays. The two axes are computed independently. On level 2 at
  an odd tick the enemy does not move; otherwise it moves by exactly one unit on each
  axis where it differs from the player (and is not held by the clamp). With the player
  at \<open>(50,50)\<close>, the enemy at \<open>(10,10)\<close> with speed 1 moves to \<open>(11,11)\<close>.
\<close>

theorem enemy_pursuit_step:
  assumes "game_won s = 0"
    and "\<not> milliseconds s - pumpkin_move_delay s < (if current_level s = 1 then 30 else 65)"
    and "enemies_ok s"
    and "i < length (enemies s)"
    and "e = enemies s ! i" and "e' = enemies (moveEnemies px py s) ! i"
    and act: "active e \<noteq> 0"
  shows "(e_x e < px \<longrightarrow>
            unat (e_x e) \<le> unat (e_x e') \<and> unat (e_x e') \<le> unat (e_x e) + 1 \<and>
            unat (e_x e') \<le> unat px) \<and>
         (px < e_x e \<longrightarrow>
            unat (e_x e') \<le> unat (e_x e) \<and> unat (e_x e) \<le> unat (e_x e') + 1 \<and>
            unat px \<le> unat (e_x e')) \<and>
         (e_x e = px \<longrightarrow> e_x e' = e_x e) \<and>
         (e_y e < py \<longrightarrow>
            unat (e_y e) \<le> unat (e_y e') \<and> unat (e_y e') \<le> unat (e_y e) + 1 \<and>
            unat (e_y e') \<le> unat py) \<and>
         (py < e_y e \<longrightarrow>
            unat (e_y e') \<le> unat (e_y e) \<and> unat (e_y e) \<le> unat (e_y e') + 1 \<and>
            unat py \<le> unat (e_y e')) \<and>
         (e_y e = py \<longrightarrow> e_y e' = e_y e) \<and>
         (current_level s = 2 \<and> milliseconds s mod 2 \<noteq> 0 \<longrightarrow> e' = e) \<and>
         (\<not> (current_level s = 2 \<and> milliseconds s mod 2 \<noteq> 0) \<longrightarrow>
            e' = e\<lparr>e_x := (if e_x e < px \<and> e_x e < 115 then e_x e + 1
                              else if px < e_x e then e_x e - 1 else e_x e),
                     e_y := (if e_y e < py \<and> e_y e < 144 then e_y e + 1
                              else if py < e_y e then e_y e - 1 else e_y e)\<rparr>) \<and>
         moveEnemy 1 ms 50 50 \<lparr> e_x = 10, e_y = 10, active = 1, speed = 1 \<rparr>
           = \<lparr> e_x = 11, e_y = 11, active = 1, speed = 1 \<rparr>"
proof -
  have "e \<in> set (enemies s)" using assms(4,5) by simp
  then have ok: "speed e = 1 \<and> e_x e \<le> 115 \<and> e_y e \<le> 144"
    using assms(3) act by (simp add: enemies_ok_def)
  have sp: "speed e = 1" and bx: "e_x e \<le> 115" and bY: "e_y e \<le> 144"
    using ok by simp_all
  have e': "e' = moveEnemy (current_level s) (milliseconds s) px py e"
    using assms(1,2,4,5,6) by (simp add: moveEnemies_pass)
  have tx: "(e_x e < px \<longrightarrow>
            unat (e_x e) \<le> unat (e_x e') \<and> unat (e_x e') \<le> unat (e_x e) + 1 \<and>
            unat (e_x e') \<le> unat px) \<and>
         (px < e_x e \<longrightarrow>
            unat (e_x e') \<le> unat (e_x e) \<and> unat (e_x e) \<le> unat (e_x e') + 1 \<and>
            unat px \<le> unat (e_x e')) \<and>
         (e_x e = px \<longrightarrow> e_x e' = e_x e)"
    unfolding e' using act bx bY sp by (rule moveEnemy_toward_x)
  have ty: "(e_y e < py \<longrightarrow>
            unat (e_y e) \<le> unat (e_y e') \<and> unat (e_y e') \<le> unat (e_y e) + 1 \<and>
            unat (e_y e') \<le> unat py) \<and>
         (py < e_y e \<longrightarrow>
            unat (e_y e') \<le> unat (e_y e) \<and> unat (e_y e) \<le> unat (e_y e') + 1 \<and>
            unat py \<le> unat (e_y e')) \<and>
         (e_y e = py \<longrightarrow> e_y e' = e_y e)"
    unfolding e' using act bx bY sp by (rule moveEnemy_toward_y)
  have stutter: "current_level s = 2 \<and> milliseconds s mod 2 \<noteq> 0 \<longrightarrow> e' = e"
    unfolding e' using act bx bY by (simp add: moveEnemy_stutter)
  have full: "\<not> (current_level s = 2 \<and> milliseconds s mod 2 \<noteq> 0) \<longrightarrow>
            e' = e\<lparr>e_x := (if e_x e < px \<and> e_x e < 115 then e_x e + 1
                              else if px < e_x e then e_x e - 1 else e_x e),
                     e_y := (if e_y e < py \<and> e_y e < 144 then e_y e + 1
                              else if py < e_y e then e_y e - 1 else e_y e)\<rparr>"
  proof
    assume "\<not> (current_level s = 2 \<and> milliseconds s mod 2 \<noteq> 0)"
    then have f: "if current_level s = 2 then milliseconds s mod 2 = 0 else speed e = 1"
      using sp by auto
    show "e' = e\<lparr>e_x := (if e_x e < px \<and> e_x e < 115 then e_x e + 1
                              else if px < e_x e then e_x e - 1 else e_x e),
                     e_y := (if e_y e < py \<and> e_y e < 144 then e_y e + 1
                              else if py < e_y e then e_y e - 1 else e_y e)\<rparr>"
      unfolding e' using act bx bY f by (rule moveEnemy_full_speed)
  qed
  have example: "moveEnemy 1 ms 50 50 \<lparr> e_x = 10, e_y = 10, active = 1, speed = 1 \<rparr>
           = \<lparr> e_x = 11, e_y = 11, active = 1, speed = 1 \<rparr>"
    by (simp add: moveEnemy_def)
  show ?thesis using tx ty stutter full example by (elim conjE) (intro conjI; assumption)
qed

theorem enemy_pursuit_step_witness:
  "game_won ((initEnemies initial_game)\<lparr>milliseconds := 30\<rparr>) = 0 \<and>
   \<not> milliseconds ((initEnemies initial_game)\<lparr>milliseconds := 30\<rparr>)
       - pumpkin_move_delay ((initEnemies initial_game)\<lparr>milliseconds := 30\<rparr>)
     < (if current_level ((initEnemies initial_game)\<lparr>milliseconds := 30\<rparr>) = 1 then 30 else 65) \<and>
   enemies_ok ((initEnemies initial_game)\<lparr>milliseconds := 30\<rparr>) \<and>
   0 < length (enemies ((initEnemies initial_game)\<lparr>milliseconds := 30\<rparr>)) \<and>
   enemies ((initEnemies initial_game)\<lparr>milliseconds := 30\<rparr>) ! 0
     = \<lparr> e_x = 10, e_y = 10, active = 1, speed = 1 \<rparr> \<and>
   enemies (moveEnemies 50 50 ((initEnemies initial_game)\<lparr>milliseconds := 30\<rparr>)) ! 0
     = \<lparr> e_x = 11, e_y = 11, active = 1, speed = 1 \<rparr>"
proof -
  have en: "enemies ((initEnemies initial_game)\<lparr>milliseconds := 30\<rparr>) ! 0
      = \<lparr> e_x = 10, e_y = 10, active = 1, speed = 1 \<rparr>"
    by (simp add: initEnemies_level1_enemies)
  have st: "game_won ((initEnemies initial_game)\<lparr>milliseconds := 30\<rparr>) = 0"
      "current_level ((initEnemies initial_game)\<lparr>milliseconds := 30\<rparr>) = 1"
      "pumpkin_move_delay ((initEnemies initial_game)\<lparr>milliseconds := 30\<rparr>) = 0"
    by (simp_all add: initEnemies_def initial_game_def)
  have len: "0 < length (enemies ((initEnemies initial_game)\<lparr>milliseconds := 30\<rparr>))"
    by (simp add: initEnemies_level1_enemies)
  have ok: "enemies_ok ((initEnemies initial_game)\<lparr>milliseconds := 30\<rparr>)"
    by (simp add: enemies_ok_def initEnemies_level1_enemies MAX_ENEMIES_def)
  show ?thesis
    using enemy_pursuit_step [of "(initEnemies initial_game)\<lparr>milliseconds := 30\<rparr>" 0
        "\<lparr> e_x = 10, e_y = 10, active = 1, speed = 1 \<rparr>"
        "enemies (moveEnemies 50 50 ((initEnemies initial_game)\<lparr>milliseconds := 30\<rparr>)) ! 0"
        50 50 0]
      en st len ok
    by simp
qed

subsection \<open>Win check\<close>

lemma do_delay_eq: "do_delay d s = s\<lparr>milliseconds := milliseconds s + d\<rparr>"
  by (simp add: do_delay_def)

lemma checkWinCondition_cases:
  "checkWinCondition x y s =
     (if hearts_total s = required_hearts (current_level s) \<and> game_won s = 0 then
        if current_level s = 1 then
          (initEnemies (do_delay 2000 (s\<lparr>hearts_collected := hearts_total s, current_level := 2,
              heart1_eaten := 0, heart2_eaten := 0, heart3_eaten := 0, heart4_eaten := 0\<rparr>)), 50, 50)
        else (showWinScreen (s\<lparr>hearts_collected := hearts_total s, game_won := 1\<rparr>), x, y)
      else (s\<lparr>hearts_collected := hearts_total s\<rparr>, x, y))"
  by (auto simp add: checkWinCondition_def Let_def hearts_total_def)


lemma fold_do_delay:
  "fold do_delay ds s = s\<lparr>milliseconds := milliseconds s + sum_list ds\<rparr>"
  by (induction ds arbitrary: s) (simp_all add: do_delay_eq add.assoc)

lemma showWinScreen_eq:
  "showWinScreen s = s\<lparr>milliseconds := milliseconds s + sum_list showWinScreen_delays\<rparr>"
  by (simp add: showWinScreen_def fold_do_delay)

lemma checkWinCondition_collected:
  "hearts_collected (fst (checkWinCondition x y s)) = hearts_total s"
  by (simp add: checkWinCondition_cases initEnemies_def do_delay_eq showWinScreen_eq)

text \<open>
  Claim C4. On level 1 the required count is 2. Every win check stores in
  \<open>hearts_collected\<close> the sum of the eaten flags that count on the current level,
  whatever it held before. On level 1, with one of the two flags set the check changes
  nothing else (no transition); with both set, in a game not yet won, the check
  moves to level 2 and clears the eaten flags of the hearts 1 and 2 (and 3 and 4).
\<close>

theorem level1_win_condition:
  "required_hearts 1 = 2 \<and>
   hearts_collected (fst (checkWinCondition x y s))
     = heart1_eaten s + heart2_eaten s
       + (if current_level s = 2 then heart3_eaten s + heart4_eaten s else 0) \<and>
   (current_level s = 1 \<and> heart1_eaten s + heart2_eaten s = 1 \<longrightarrow>
      fst (checkWinCondition x y s) = s\<lparr>hearts_collected := 1\<rparr>) \<and>
   (current_level s = 1 \<and> game_won s = 0 \<and> heart1_eaten s = 1 \<and> heart2_eaten s = 1 \<longrightarrow>
      current_level (fst (checkWinCondition x y s)) = 2 \<and>
      heart1_eaten (fst (checkWinCondition x y s)) = 0 \<and>
      heart2_eaten (fst (checkWinCondition x y s)) = 0 \<and>
      heart3_eaten (fst (checkWinCondition x y s)) = 0 \<and>
      heart4_eaten (fst (checkWinCondition x y s)) = 0)"
proof (intro conjI impI)
  show "required_hearts 1 = 2" by (simp add: required_hearts_def)
  show "hearts_collected (fst (checkWinCondition x y s))
     = heart1_eaten s + heart2_eaten s
       + (if current_level s = 2 then heart3_eaten s + heart4_eaten s else 0)"
    by (simp only: checkWinCondition_collected hearts_total_def)
next
  assume a: "current_level s = 1 \<and> heart1_eaten s + heart2_eaten s = 1"
  then have "hearts_total s = 1" by (simp add: hearts_total_def)
  with a show "fst (checkWinCondition x y s) = s\<lparr>hearts_collected := 1\<rparr>"
    by (simp add: checkWinCondition_cases required_hearts_def)
next
  assume a: "current_level s = 1 \<and> game_won s = 0 \<and> heart1_eaten s = 1 \<and> heart2_eaten s = 1"
  then have "hearts_total s = 2" by (simp add: hearts_total_def)
  with a have t: "fst (checkWinCondition x y s) =
      initEnemies (do_delay 2000 (s\<lparr>hearts_collected := 2, current_level := 2, heart1_eaten := 0,
         heart2_eaten := 0, heart3_eaten := 0, heart4_eaten := 0\<rparr>))"
    by (simp add: checkWinCondition_cases required_hearts_def)
  show "current_level (fst (checkWinCondition x y s)) = 2"
    unfolding t by (simp add: initEnemies_def do_delay_eq)
  show "heart1_eaten (fst (checkWinCondition x y s)) = 0"
    unfolding t by (simp add: initEnemies_def do_delay_eq)
  show "heart2_eaten (fst (checkWinCondition x y s)) = 0"
    unfolding t by (simp add: initEnemies_def do_delay_eq)
  show "heart3_eaten (fst (checkWinCondition x y s)) = 0"
    unfolding t by (simp add: initEnemies_def do_delay_eq)
  show "heart4_eaten (fst (checkWinCondition x y s)) = 0"
    unfolding t by (simp add: initEnemies_def do_delay_eq)
qed

theorem level1_win_condition_witness:
  "current_level (initial_game\<lparr>heart1_eaten := 1, heart2_eaten := 1\<rparr>) = 1 \<and>
   game_won (initial_game\<lparr>heart1_eaten := 1, heart2_eaten := 1\<rparr>) = 0 \<and>
   heart1_eaten (initial_game\<lparr>heart1_eaten := 1, heart2_eaten := 1\<rparr>) = 1 \<and>
   heart2_eaten (initial_game\<lparr>heart1_eaten := 1, heart2_eaten := 1\<rparr>) = 1 \<and>
   current_level (fst (checkWinCondition 60 90 (initial_game\<lparr>heart1_eaten := 1, heart2_eaten := 1\<rparr>))) = 2 \<and>
   heart1_eaten (fst (checkWinCondition 60 90 (initial_game\<lparr>heart1_eaten := 1, heart2_eaten := 1\<rparr>))) = 0 \<and>
   heart2_eaten (fst (checkWinCondition 60 90 (initial_game\<lparr>heart1_eaten := 1, heart2_eaten := 1\<rparr>))) = 0 \<and>
   current_level (initial_game\<lparr>heart1_eaten := 1\<rparr>) = 1 \<and>
   heart1_eaten (initial_game\<lparr>heart1_eaten := 1\<rparr>) + heart2_eaten (initial_game\<lparr>heart1_eaten := 1\<rparr>) = 1 \<and>
   current_level (fst (checkWinCondition 40 80 (initial_game\<lparr>heart1_eaten := 1\<rparr>))) = 1"
  using level1_win_condition [of 60 90 "initial_game\<lparr>heart1_eaten := 1, heart2_eaten := 1\<rparr>"]
    level1_win_condition [of 40 80 "initial_game\<lparr>heart1_eaten := 1\<rparr>"]
  by (simp add: initial_game_def)

subsection \<open>The main loop\<close>

lemmas game_defs =
  initEnemies_def moveEnemies_def moveEnemy_def checkEnemyCollision_def
  checkWinCondition_cases hearts_total_def required_hearts_def do_delay_eq showWinScreen_eq
  start_new_game_def player_movement_def collect_heart1_def collect_heart2_def
  collect_heart3_def collect_heart4_def game_state_updates_def rand_direction_def
  drift_def move_heart1_def move_heart2_def move_heart3_def move_heart4_def move_hearts_def
  enemy_collision_def heart_update_def level2_collection_def toggle_selection_def
  game_over_menu_def playing_iteration_def isInside_def

lemma level1_game_eq:
  "level1_game =
     \<lparr> milliseconds = 0, pumpkin_move_delay = 0, heart_move_delay = 0,
       game_won = 0, game_over = 0, show_game_over_menu = 0, game_over_selection = 0,
       heart1_x = 40, heart1_y = 80, heart2_x = 60, heart2_y = 90,
       heart3_x = 80, heart3_y = 70, heart4_x = 30, heart4_y = 100,
       heart1_direction_x = 1, heart1_direction_y = 1,
       heart2_direction_x = 1, heart2_direction_y = 1,
       heart3_direction_x = 1, heart3_direction_y = 1,
       heart4_direction_x = 1, heart4_direction_y = 1,
       heart1_eaten = 0, heart2_eaten = 0, heart3_eaten = 0, heart4_eaten = 0,
       current_level = 1, hearts_collected = 0,
       enemies = [\<lparr> e_x = 10, e_y = 10, active = 1, speed = 1 \<rparr>,
                  \<lparr> e_x = 0, e_y = 0, active = 0, speed = 0 \<rparr>,
                  \<lparr> e_x = 0, e_y = 0, active = 0, speed = 0 \<rparr>,
                  \<lparr> e_x = 0, e_y = 0, active = 0, speed = 0 \<rparr>,
                  \<lparr> e_x = 0, e_y = 0, active = 0, speed = 0 \<rparr>,
                  \<lparr> e_x = 0, e_y = 0, active = 0, speed = 0 \<rparr>],
       in_menu = 0, rand_calls = 0 \<rparr>"
  by (simp add: level1_game_def start_new_game_def initEnemies_def initial_game_def
      MAX_ENEMIES_def eval_nat_numeral)

lemma checkWinCondition_transition_copies:
  assumes "current_level s = 1" "game_won s = 0" "heart1_eaten s + heart2_eaten s = 2"
  shows "snd (checkWinCondition x y s) = (50, 50)"
  using assms by (simp add: checkWinCondition_cases hearts_total_def required_hearts_def)

text \<open>
  Claim C1 (the code departs from it). The player at \<open>(59,90)\<close> steps right onto
  heart 2, the last heart of level 1: the pickup calls \<open>checkWinCondition\<close>, the
  transition to level 2 fires, and the player position of the game loop is still
  \<open>(60,90)\<close> at the end of the iteration, not \<open>(50,50)\<close>: the assignment \<open>x = 50; y = 50\<close>
  is made to the by-value parameters of \<open>checkWinCondition\<close>
  (\<open>checkWinCondition_transition_copies\<close>), which the callers drop.
\<close>

theorem level_transition_keeps_player_position:
  "current_level pickup_game = 1 \<and>
   current_level (fst (playing_iteration hold_right pickup_game pickup_locals)) = 2 \<and>
   heart1_eaten (fst (playing_iteration hold_right pickup_game pickup_locals)) = 0 \<and>
   heart2_eaten (fst (playing_iteration hold_right pickup_game pickup_locals)) = 0 \<and>
   main_x (snd (playing_iteration hold_right pickup_game pickup_locals)) = 60 \<and>
   main_y (snd (playing_iteration hold_right pickup_game pickup_locals)) = 90"
  by (simp add: pickup_game_def pickup_locals_def level1_game_eq hold_right_def idle_env_def
      game_defs Let_def)

lemma collision_loop_iff:
  "collision_loop es px py \<noteq> 0 \<longleftrightarrow>
     (\<exists>e \<in> set es. active e \<noteq> 0 \<and> isInside (e_x e) (e_y e) 12 16 px py \<noteq> 0)"
  by (induction es) auto

lemma move_hearts_frame:
  "enemies (move_hearts ev s) = enemies s"
  "game_won (move_hearts ev s) = game_won s"
  "game_over (move_hearts ev s) = game_over s"
  "milliseconds (move_hearts ev s) = milliseconds s"
  "current_level (move_hearts ev s) = current_level s"
  by (simp_all add: move_hearts_def move_heart1_def move_heart2_def move_heart3_def
      move_heart4_def Let_def)

lemma heart_update_gate_open:
  assumes "milliseconds s - heart_move_delay s \<ge> 400" "game_over s = 0"
    and "game_won s = 0" "checkEnemyCollision (main_x l) (main_y l) s \<noteq> 0"
  shows "game_over (heart_update ev s l) = 1"
    and "list_all (\<lambda>e. active e = 0) (enemies (heart_update ev s l))"
    and "current_level (heart_update ev s l) = current_level s"
    and "game_won (heart_update ev s l) = 0"
  using assms
  by (auto simp add: heart_update_def enemy_collision_def checkEnemyCollision_def Let_def
      move_hearts_frame list_all_iff)

lemma heart_update_gate_closed:
  "\<not> (milliseconds s - heart_move_delay s \<ge> 400 \<and> game_over s = 0) \<Longrightarrow> heart_update ev s l = s"
  by (auto simp add: heart_update_def)

lemma checkWinCondition_not_level1:
  assumes "current_level s \<noteq> 1"
  shows "enemies (fst (checkWinCondition x y s)) = enemies s"
    and "game_over (fst (checkWinCondition x y s)) = game_over s"
    and "current_level (fst (checkWinCondition x y s)) = current_level s"
  using assms by (simp_all add: checkWinCondition_cases showWinScreen_eq)

lemma collect_level2_frame:
  assumes "current_level s \<noteq> 1"
  shows "enemies (collect_heart3 s l) = enemies s"
    and "game_over (collect_heart3 s l) = game_over s"
    and "current_level (collect_heart3 s l) = current_level s"
    and "enemies (collect_heart4 s l) = enemies s"
    and "game_over (collect_heart4 s l) = game_over s"
    and "current_level (collect_heart4 s l) = current_level s"
  using assms
  by (simp_all add: collect_heart3_def collect_heart4_def checkWinCondition_not_level1 do_delay_eq)

lemma level2_collection_frame:
  "enemies (level2_collection s l) = enemies s"
  "game_over (level2_collection s l) = game_over s"
  by (simp_all add: level2_collection_def collect_level2_frame)

lemma game_over_menu_no_confirm:
  assumes "\<And>t. \<not> right_pressed ev t"
  shows "enemies (fst (game_over_menu ev s l)) = enemies s"
    and "game_over (fst (game_over_menu ev s l)) = game_over s"
  using assms
  by (simp_all add: game_over_menu_def toggle_selection_def do_delay_eq Let_def)

lemma after_heart_update_no_confirm:
  assumes "\<And>t. \<not> right_pressed ev t"
  shows "enemies (fst (playing_iteration ev s l))
           = enemies (heart_update ev (fst (game_state_updates ev s l)) (snd (game_state_updates ev s l)))"
    and "game_over (fst (playing_iteration ev s l))
           = game_over (heart_update ev (fst (game_state_updates ev s l)) (snd (game_state_updates ev s l)))"
  using assms
  by (simp_all add: playing_iteration_def Let_def split_beta do_delay_eq
      game_over_menu_no_confirm level2_collection_frame)


text \<open>
  What the block guarded by the heart timer does. When it runs (at least 400 ticks
  since \<open>heart_move_delay\<close>, game not over) in a game not won and the box of an active
  enemy contains the player's position, it sets \<open>game_over\<close> and deactivates every
  enemy, and with the confirm button not pressed this is the state at the end of the
  iteration. When it does not run, nothing looks at the enemies' boxes.
\<close>

lemma heart_update_collision_check:
  "(milliseconds s1 - heart_move_delay s1 \<ge> 400 \<and> game_over s1 = 0 \<and> game_won s1 = 0 \<and>
      (\<exists>e \<in> set (enemies s1). active e \<noteq> 0 \<and>
          isInside (e_x e) (e_y e) 12 16 (main_x l1) (main_y l1) \<noteq> 0)
    \<longrightarrow> game_over (heart_update ev s1 l1) = 1 \<and>
        (\<forall>e \<in> set (enemies (heart_update ev s1 l1)). active e = 0)) \<and>
   (\<not> (milliseconds s1 - heart_move_delay s1 \<ge> 400 \<and> game_over s1 = 0)
    \<longrightarrow> heart_update ev s1 l1 = s1) \<and>
   (s1 = fst (game_state_updates ev s l) \<and> l1 = snd (game_state_updates ev s l) \<and>
    milliseconds s1 - heart_move_delay s1 \<ge> 400 \<and> game_over s1 = 0 \<and> game_won s1 = 0 \<and>
      (\<exists>e \<in> set (enemies s1). active e \<noteq> 0 \<and>
          isInside (e_x e) (e_y e) 12 16 (main_x l1) (main_y l1) \<noteq> 0) \<and>
      (\<forall>t. \<not> right_pressed ev t)
    \<longrightarrow> game_over (fst (playing_iteration ev s l)) = 1 \<and>
        (\<forall>e \<in> set (enemies (fst (playing_iteration ev s l))). active e = 0))"
proof (intro conjI impI)
  assume a: "milliseconds s1 - heart_move_delay s1 \<ge> 400 \<and> game_over s1 = 0 \<and> game_won s1 = 0 \<and>
      (\<exists>e \<in> set (enemies s1). active e \<noteq> 0 \<and>
          isInside (e_x e) (e_y e) 12 16 (main_x l1) (main_y l1) \<noteq> 0)"
  then have c: "checkEnemyCollision (main_x l1) (main_y l1) s1 \<noteq> 0"
    by (simp add: checkEnemyCollision_def collision_loop_iff)
  show "game_over (heart_update ev s1 l1) = 1"
    using a c by (simp add: heart_update_gate_open)
  show "\<forall>e \<in> set (enemies (heart_update ev s1 l1)). active e = 0"
    using a c heart_update_gate_open(2) [of s1 l1 ev] by (simp add: list_all_iff)
next
  assume "\<not> (milliseconds s1 - heart_move_delay s1 \<ge> 400 \<and> game_over s1 = 0)"
  then show "heart_update ev s1 l1 = s1" by (rule heart_update_gate_closed)
next
  assume a: "s1 = fst (game_state_updates ev s l) \<and> l1 = snd (game_state_updates ev s l) \<and>
    milliseconds s1 - heart_move_delay s1 \<ge> 400 \<and> game_over s1 = 0 \<and> game_won s1 = 0 \<and>
      (\<exists>e \<in> set (enemies s1). active e \<noteq> 0 \<and>
          isInside (e_x e) (e_y e) 12 16 (main_x l1) (main_y l1) \<noteq> 0) \<and>
      (\<forall>t. \<not> right_pressed ev t)"
  have s1: "s1 = fst (game_state_updates ev s l)" using a by blast
  have l1: "l1 = snd (game_state_updates ev s l)" using a by blast
  have gate: "milliseconds s1 - heart_move_delay s1 \<ge> 400" using a by blast
  have go: "game_over s1 = 0" using a by blast
  have gw: "game_won s1 = 0" using a by blast
  have ex: "\<exists>e \<in> set (enemies s1). active e \<noteq> 0 \<and>
          isInside (e_x e) (e_y e) 12 16 (main_x l1) (main_y l1) \<noteq> 0"
    using a by blast
  have nc: "\<And>t. \<not> right_pressed ev t" using a by blast
  have c: "checkEnemyCollision (main_x l1) (main_y l1) s1 \<noteq> 0"
    using ex by (simp only: checkEnemyCollision_def collision_loop_iff)
  have eq: "enemies (fst (playing_iteration ev s l)) = enemies (heart_update ev s1 l1)"
      "game_over (fst (playing_iteration ev s l)) = game_over (heart_update ev s1 l1)"
    unfolding s1 l1 using nc by (rule after_heart_update_no_confirm)+
  show "game_over (fst (playing_iteration ev s l)) = 1"
    unfolding eq using gate go gw c by (rule heart_update_gate_open)
  have "list_all (\<lambda>e. active e = 0) (enemies (heart_update ev s1 l1))"
    using gate go gw c by (rule heart_update_gate_open)
  then show "\<forall>e \<in> set (enemies (fst (playing_iteration ev s l))). active e = 0"
    unfolding eq by (simp only: list_all_iff)
qed

lemma caught_open_updates:
  "game_state_updates idle_env (caught_game\<lparr>heart_move_delay := 2600\<rparr>) initial_locals
     = (caught_game\<lparr>heart_move_delay := 2600\<rparr>, initial_locals)"
  by (simp add: caught_game_def initial_locals_def level1_game_eq idle_env_def
      game_defs Let_def)

lemma heart_update_collision_check_example:
  "milliseconds (caught_game\<lparr>heart_move_delay := 2600\<rparr>)
     - heart_move_delay (caught_game\<lparr>heart_move_delay := 2600\<rparr>) \<ge> 400 \<and>
   game_over (caught_game\<lparr>heart_move_delay := 2600\<rparr>) = 0 \<and>
   game_won (caught_game\<lparr>heart_move_delay := 2600\<rparr>) = 0 \<and>
   checkEnemyCollision (main_x initial_locals) (main_y initial_locals)
     (caught_game\<lparr>heart_move_delay := 2600\<rparr>) = 1 \<and>
   game_over (fst (playing_iteration idle_env (caught_game\<lparr>heart_move_delay := 2600\<rparr>)
     initial_locals)) = 1 \<and>
   list_all (\<lambda>e. active e = 0)
     (enemies (fst (playing_iteration idle_env (caught_game\<lparr>heart_move_delay := 2600\<rparr>)
        initial_locals)))"
proof -
  have st: "milliseconds (caught_game\<lparr>heart_move_delay := 2600\<rparr>)
       - heart_move_delay (caught_game\<lparr>heart_move_delay := 2600\<rparr>) \<ge> 400"
      "game_over (caught_game\<lparr>heart_move_delay := 2600\<rparr>) = 0"
      "game_won (caught_game\<lparr>heart_move_delay := 2600\<rparr>) = 0"
      "checkEnemyCollision (main_x initial_locals) (main_y initial_locals)
         (caught_game\<lparr>heart_move_delay := 2600\<rparr>) = 1"
    by (simp_all add: caught_game_def level1_game_eq initial_locals_def
        checkEnemyCollision_def isInside_def)
  have ex: "\<exists>e \<in> set (enemies (caught_game\<lparr>heart_move_delay := 2600\<rparr>)). active e \<noteq> 0 \<and>
          isInside (e_x e) (e_y e) 12 16 (main_x initial_locals) (main_y initial_locals) \<noteq> 0"
    using st(4) collision_loop_iff [of "enemies (caught_game\<lparr>heart_move_delay := 2600\<rparr>)"
        "main_x initial_locals" "main_y initial_locals"]
    by (simp add: checkEnemyCollision_def)
  have quiet: "\<forall>t. \<not> right_pressed idle_env t" by (simp add: idle_env_def)
  show ?thesis
    using heart_update_collision_check
      [of "caught_game\<lparr>heart_move_delay := 2600\<rparr>" initial_locals idle_env
          "caught_game\<lparr>heart_move_delay := 2600\<rparr>" initial_locals]
      st ex quiet caught_open_updates
    by (simp add: list_all_iff)
qed

text \<open>
  Claim C2 (the code departs from it). The call of \<open>checkEnemyCollision\<close> is nested in
  the block that the source guards with \<open>milliseconds - heart_move_delay >= 400\<close>, the
  timer of the heart drift, so an iteration in which that timer has not elapsed makes
  no collision check. In \<open>caught_game\<close> the game is outside the menu, not won and not
  over, and the box of the active pumpkin contains the player's position before the
  iteration, at the point of the check and after the iteration; yet the iteration ends
  with \<open>game_over\<close> still 0 and the pumpkin still active.
\<close>

theorem collision_unchecked_while_heart_timer_runs:
  "in_menu caught_game = 0 \<and> game_won caught_game = 0 \<and> game_over caught_game = 0 \<and>
   checkEnemyCollision (main_x initial_locals) (main_y initial_locals) caught_game = 1 \<and>
   checkEnemyCollision
     (main_x (snd (game_state_updates idle_env caught_game initial_locals)))
     (main_y (snd (game_state_updates idle_env caught_game initial_locals)))
     (fst (game_state_updates idle_env caught_game initial_locals)) = 1 \<and>
   checkEnemyCollision
     (main_x (snd (playing_iteration idle_env caught_game initial_locals)))
     (main_y (snd (playing_iteration idle_env caught_game initial_locals)))
     (fst (playing_iteration idle_env caught_game initial_locals)) = 1 \<and>
   game_over (fst (playing_iteration idle_env caught_game initial_locals)) = 0 \<and>
   active (enemies (fst (playing_iteration idle_env caught_game initial_locals)) ! 0) = 1"
  by (simp add: caught_game_def initial_locals_def level1_game_eq idle_env_def
      game_defs Let_def)

subsection \<open>Tune sequencer\<close>

lemma sequencer_wrap:
  assumes "background_tune_notes s = Some notes" "current_note_timer s = 0"
    and "index s + 1 \<ge> background_tune_note_count s" "background_repeat_tune s \<noteq> 0"
  shows "SysTick_Handler s = Some (s\<lparr>ticks := ticks s + 1, index := 0\<rparr>, None)"
  using assms by (simp add: SysTick_Handler_def advance_note_def Let_def)

lemma sequencer_tone_is_next_index:
  assumes "SysTick_Handler s = Some (s', Some n)" "background_tune_notes s = Some notes"
  shows "index s + 1 < background_tune_note_count s \<and> n = notes ! unat (index s + 1) \<and>
         current_note_timer s = 0"
  using assms
  by (auto simp add: SysTick_Handler_def advance_note_def Let_def read_at_def
      split: if_splits option.splits)

lemma run_ticks_two:
  assumes "SysTick_Handler s = Some (s1, a)" "SysTick_Handler s1 = Some (s2, b)"
  shows "run_ticks 2 s =
           Some (s2, (case a of None \<Rightarrow> [] | Some v \<Rightarrow> [v]) @ (case b of None \<Rightarrow> [] | Some v \<Rightarrow> [v]))"
proof -
  have "run_ticks (Suc (Suc 0)) s =
           Some (s2, (case a of None \<Rightarrow> [] | Some v \<Rightarrow> [v]) @ (case b of None \<Rightarrow> [] | Some v \<Rightarrow> [v]))"
    using assms by simp
  then show ?thesis by (simp only: numeral_2_eq_2)
qed

text \<open>
  Claim C3 (the code departs from it). With the five-note tune of \<open>main\<close> and the repeat
  flag set, the tick on which the last note has run out sets \<open>index\<close> to 0 and neither
  loads a duration nor requests a tone; the next tick increments \<open>index\<close> first and
  starts note 1. Note 0 is skipped: the first tone requested after the restart is
  \<open>n1\<close>. The note values come from \<open>musical_notes.h\<close> and are left as parameters.
\<close>

theorem sequencer_restart_skips_note0:
  "SysTick_Handler
     \<lparr> ticks = t, background_tune_notes = Some [n0, n1, n2, n3, n4],
       background_tune_times = [200, 300, 400, 100, 500],
       background_tune_note_count = 5, background_repeat_tune = 1,
       index = 4, current_note_timer = 0 \<rparr>
   = Some (\<lparr> ticks = t + 1, background_tune_notes = Some [n0, n1, n2, n3, n4],
             background_tune_times = [200, 300, 400, 100, 500],
             background_tune_note_count = 5, background_repeat_tune = 1,
             index = 0, current_note_timer = 0 \<rparr>, None) \<and>
   SysTick_Handler
     \<lparr> ticks = t + 1, background_tune_notes = Some [n0, n1, n2, n3, n4],
       background_tune_times = [200, 300, 400, 100, 500],
       background_tune_note_count = 5, background_repeat_tune = 1,
       index = 0, current_note_timer = 0 \<rparr>
   = Some (\<lparr> ticks = t + 2, background_tune_notes = Some [n0, n1, n2, n3, n4],
             background_tune_times = [200, 300, 400, 100, 500],
             background_tune_note_count = 5, background_repeat_tune = 1,
             index = 1, current_note_timer = 299 \<rparr>, Some n1) \<and>
   run_ticks 2
     \<lparr> ticks = t, background_tune_notes = Some [n0, n1, n2, n3, n4],
       background_tune_times = [200, 300, 400, 100, 500],
       background_tune_note_count = 5, background_repeat_tune = 1,
       index = 4, current_note_timer = 0 \<rparr>
   = Some (\<lparr> ticks = t + 2, background_tune_notes = Some [n0, n1, n2, n3, n4],
             background_tune_times = [200, 300, 400, 100, 500],
             background_tune_note_count = 5, background_repeat_tune = 1,
             index = 1, current_note_timer = 299 \<rparr>, [n1])"
proof -
  let ?s4 = "\<lparr> ticks = t, background_tune_notes = Some [n0, n1, n2, n3, n4],
       background_tune_times = [200, 300, 400, 100, 500],
       background_tune_note_count = 5, background_repeat_tune = 1,
       index = 4, current_note_timer = 0 \<rparr>"
  let ?s0 = "\<lparr> ticks = t + 1, background_tune_notes = Some [n0, n1, n2, n3, n4],
       background_tune_times = [200, 300, 400, 100, 500],
       background_tune_note_count = 5, background_repeat_tune = 1,
       index = 0, current_note_timer = 0 \<rparr>"
  let ?s1 = "\<lparr> ticks = t + 2, background_tune_notes = Some [n0, n1, n2, n3, n4],
       background_tune_times = [200, 300, 400, 100, 500],
       background_tune_note_count = 5, background_repeat_tune = 1,
       index = 1, current_note_timer = 299 \<rparr>"
  have h1: "SysTick_Handler ?s4 = Some (?s0, None)"
    by (simp add: SysTick_Handler_def advance_note_def Let_def read_at_def word_le_nat_alt)
  have h2: "SysTick_Handler ?s0 = Some (?s1, Some n1)"
    by (simp add: SysTick_Handler_def advance_note_def Let_def read_at_def word_le_nat_alt)
  have h3: "run_ticks 2 ?s4 = Some (?s1, [n1])"
    using run_ticks_two [OF h1 h2] by simp
  show ?thesis using h1 h2 h3 by (intro conjI)
qed

subsection \<open>Invariants of the main loop\<close>

text \<open>
  The hypotheses of the statements above hold throughout play: the initial state, the
  start of a new game and every iteration of the loop outside the menu keep the
  enemies as \<open>initEnemies\<close> and \<open>moveEnemies\<close> leave them (\<open>enemies_ok\<close>), the hearts
  within the clamp bounds (\<open>hearts_in_bounds\<close>) and a level-1 game not won
  (\<open>level_ok\<close>).
\<close>

lemma enemies_ok_alt:
  "enemies_ok s \<longleftrightarrow> length (enemies s) = MAX_ENEMIES \<and> list_all enemy_ok (enemies s)"
  by (simp add: enemies_ok_def enemy_ok_def list_all_iff)

lemma list_all_update:
  "list_all P xs \<Longrightarrow> P v \<Longrightarrow> list_all P (xs[i := v])"
  by (induction xs arbitrary: i) (auto split: nat.splits)

lemma initial_enemies_ok: "enemies_ok initial_game"
  by (simp add: enemies_ok_alt initial_game_def enemy_ok_def list_all_iff)

lemma initEnemies_ok: "enemies_ok s \<Longrightarrow> enemies_ok (initEnemies s)"
  by (simp add: enemies_ok_alt initEnemies_def list_all_update enemy_ok_def)

lemma clamp_le:
  fixes v hi :: uint16_t
  shows "(if v \<le> 0 then 0 else if v \<ge> hi then hi else v) \<le> hi"
  by auto

lemma moveEnemy_ok: "enemy_ok e \<Longrightarrow> enemy_ok (moveEnemy level ms px py e)"
  by (simp add: enemy_ok_def moveEnemy_def Let_def clamp_le del: word_le_0_iff)

lemma moveEnemies_ok: "enemies_ok s \<Longrightarrow> enemies_ok (moveEnemies px py s)"
  by (simp add: enemies_ok_alt moveEnemies_def Let_def list_all_iff moveEnemy_ok)

lemma enemy_collision_ok: "enemies_ok s \<Longrightarrow> enemies_ok (enemy_collision s l)"
  by (auto simp add: enemies_ok_alt enemy_collision_def list_all_iff enemy_ok_def)


lemma enemies_ok_cong: "enemies s' = enemies s \<Longrightarrow> enemies_ok s' = enemies_ok s"
  by (simp add: enemies_ok_def)

lemma checkWinCondition_ok:
  assumes "enemies_ok s"
  shows "enemies_ok (fst (checkWinCondition x y s))"
proof -
  have a: "\<And>h. enemies_ok (initEnemies (do_delay 2000 (s\<lparr>hearts_collected := h,
      current_level := 2, heart1_eaten := 0, heart2_eaten := 0, heart3_eaten := 0,
      heart4_eaten := 0\<rparr>)))"
    using assms by (intro initEnemies_ok) (simp add: enemies_ok_def do_delay_eq)
  have b: "\<And>h. enemies_ok (showWinScreen (s\<lparr>hearts_collected := h, game_won := 1\<rparr>))"
    using assms by (simp add: enemies_ok_def showWinScreen_eq)
  have c: "\<And>h. enemies_ok (s\<lparr>hearts_collected := h\<rparr>)"
    using assms by (simp add: enemies_ok_def)
  show ?thesis using a b c by (simp add: checkWinCondition_cases)
qed

lemma collect_hearts_ok:
  assumes "enemies_ok s"
  shows "enemies_ok (collect_heart1 s l)" "enemies_ok (collect_heart2 s l)"
    "enemies_ok (collect_heart3 s l)" "enemies_ok (collect_heart4 s l)"
proof -
  have "enemies_ok (do_delay 500 (s\<lparr>heart1_eaten := 1\<rparr>))"
       "enemies_ok (do_delay 500 (s\<lparr>heart2_eaten := 1\<rparr>))"
       "enemies_ok (do_delay 500 (s\<lparr>heart3_eaten := 1\<rparr>))"
       "enemies_ok (do_delay 500 (s\<lparr>heart4_eaten := 1\<rparr>))"
    using assms by (simp_all add: enemies_ok_def do_delay_eq)
  then show "enemies_ok (collect_heart1 s l)" "enemies_ok (collect_heart2 s l)"
    "enemies_ok (collect_heart3 s l)" "enemies_ok (collect_heart4 s l)"
    using assms
    by (simp_all add: collect_heart1_def collect_heart2_def collect_heart3_def
        collect_heart4_def checkWinCondition_ok)
qed

lemma game_state_updates_ok:
  assumes "enemies_ok s"
  shows "enemies_ok (fst (game_state_updates ev s l))"
proof -
  have "enemies_ok (fst (checkWinCondition (main_x l) (main_y l) s))"
    using assms by (rule checkWinCondition_ok)
  then show ?thesis
    by (simp add: game_state_updates_def Let_def split_beta moveEnemies_ok collect_hearts_ok)
qed

lemma heart_update_ok: "enemies_ok s \<Longrightarrow> enemies_ok (heart_update ev s l)"
proof -
  assume a: "enemies_ok s"
  have "enemies_ok (move_hearts ev s)"
    using a by (simp add: enemies_ok_def move_hearts_frame)
  then have "enemies_ok (enemy_collision (move_hearts ev s) l)"
    by (rule enemy_collision_ok)
  then have "enemies_ok ((enemy_collision (move_hearts ev s) l)
      \<lparr>heart_move_delay := milliseconds (enemy_collision (move_hearts ev s) l)\<rparr>)"
    by (simp add: enemies_ok_def)
  then show ?thesis using a by (simp add: heart_update_def Let_def)
qed

lemma level2_collection_ok: "enemies_ok s \<Longrightarrow> enemies_ok (level2_collection s l)"
  by (simp add: enemies_ok_def level2_collection_frame)

lemma game_over_menu_ok:
  assumes "enemies_ok s"
  shows "enemies_ok (fst (game_over_menu ev s l))"
proof -
  have t: "\<And>u. enemies_ok u \<Longrightarrow> enemies_ok (toggle_selection u)"
    by (simp add: enemies_ok_def toggle_selection_def do_delay_eq)
  have r: "\<And>u. enemies_ok u \<Longrightarrow> enemies_ok (initEnemies (u\<lparr>current_level := 1, game_over := 0,
      game_won := 0, heart1_eaten := 0, heart2_eaten := 0, heart3_eaten := 0, heart4_eaten := 0,
      show_game_over_menu := 0, heart1_x := 40, heart1_y := 80, heart2_x := 60, heart2_y := 90\<rparr>))"
    by (rule initEnemies_ok) (simp add: enemies_ok_def)
  have m: "\<And>u. enemies_ok u \<Longrightarrow> enemies_ok (u\<lparr>in_menu := 1, show_game_over_menu := 0,
      current_level := 1\<rparr>)"
    by (simp add: enemies_ok_def)
  have d: "\<And>u. enemies_ok u \<Longrightarrow> enemies_ok (do_delay 200 u)"
    by (simp add: enemies_ok_def do_delay_eq)
  show ?thesis
    using assms by (simp add: game_over_menu_def Let_def t r m d)
qed

lemma playing_iteration_enemies_ok:
  assumes "enemies_ok s"
  shows "enemies_ok (fst (playing_iteration ev s l))"
proof -
  have d: "\<And>u. enemies_ok u \<Longrightarrow> enemies_ok (do_delay 20 u)"
    by (simp add: enemies_ok_def do_delay_eq)
  show ?thesis
    using assms
    by (simp add: playing_iteration_def Let_def split_beta d game_over_menu_ok
        level2_collection_ok heart_update_ok game_state_updates_ok)
qed

lemma start_new_game_enemies_ok:
  assumes "enemies_ok s"
  shows "enemies_ok (fst (start_new_game s l))"
proof -
  have "enemies_ok (initEnemies (s\<lparr>in_menu := 0\<rparr>))"
    using assms by (intro initEnemies_ok) (simp add: enemies_ok_def)
  then show ?thesis by (simp add: start_new_game_def Let_def enemies_ok_def)
qed


lemma hearts_in_bounds_frame:
  "hearts_in_bounds (do_delay d s) = hearts_in_bounds s"
  "hearts_in_bounds (initEnemies s) = hearts_in_bounds s"
  "hearts_in_bounds (showWinScreen s) = hearts_in_bounds s"
  "hearts_in_bounds (moveEnemies px py s) = hearts_in_bounds s"
  "hearts_in_bounds (enemy_collision s l) = hearts_in_bounds s"
  "hearts_in_bounds (toggle_selection s) = hearts_in_bounds s"
  by (simp_all add: hearts_in_bounds_def do_delay_eq initEnemies_def showWinScreen_eq
      moveEnemies_def enemy_collision_def toggle_selection_def Let_def)

lemma checkWinCondition_in_bounds:
  "hearts_in_bounds (fst (checkWinCondition x y s)) = hearts_in_bounds s"
proof -
  have a: "\<And>h. hearts_in_bounds (s\<lparr>hearts_collected := h, current_level := 2,
      heart1_eaten := 0, heart2_eaten := 0, heart3_eaten := 0, heart4_eaten := 0\<rparr>)
      = hearts_in_bounds s"
    by (simp add: hearts_in_bounds_def)
  have b: "\<And>h. hearts_in_bounds (s\<lparr>hearts_collected := h, game_won := 1\<rparr>) = hearts_in_bounds s"
    by (simp add: hearts_in_bounds_def)
  have c: "\<And>h. hearts_in_bounds (s\<lparr>hearts_collected := h\<rparr>) = hearts_in_bounds s"
    by (simp add: hearts_in_bounds_def)
  show ?thesis by (simp add: checkWinCondition_cases hearts_in_bounds_frame a b c)
qed

lemma collect_hearts_in_bounds:
  "hearts_in_bounds (collect_heart1 s l) = hearts_in_bounds s"
  "hearts_in_bounds (collect_heart2 s l) = hearts_in_bounds s"
  "hearts_in_bounds (collect_heart3 s l) = hearts_in_bounds s"
  "hearts_in_bounds (collect_heart4 s l) = hearts_in_bounds s"
proof -
  have e: "hearts_in_bounds (s\<lparr>heart1_eaten := 1\<rparr>) = hearts_in_bounds s"
      "hearts_in_bounds (s\<lparr>heart2_eaten := 1\<rparr>) = hearts_in_bounds s"
      "hearts_in_bounds (s\<lparr>heart3_eaten := 1\<rparr>) = hearts_in_bounds s"
      "hearts_in_bounds (s\<lparr>heart4_eaten := 1\<rparr>) = hearts_in_bounds s"
    by (simp_all add: hearts_in_bounds_def)
  show "hearts_in_bounds (collect_heart1 s l) = hearts_in_bounds s"
    "hearts_in_bounds (collect_heart2 s l) = hearts_in_bounds s"
    "hearts_in_bounds (collect_heart3 s l) = hearts_in_bounds s"
    "hearts_in_bounds (collect_heart4 s l) = hearts_in_bounds s"
    by (simp_all add: collect_heart1_def collect_heart2_def collect_heart3_def
        collect_heart4_def checkWinCondition_in_bounds hearts_in_bounds_frame e)
qed

lemma game_state_updates_in_bounds:
  "hearts_in_bounds (fst (game_state_updates ev s l)) = hearts_in_bounds s"
  by (simp add: game_state_updates_def Let_def split_beta collect_hearts_in_bounds
      hearts_in_bounds_frame checkWinCondition_in_bounds)

lemma heart_update_in_bounds:
  assumes "hearts_in_bounds s"
  shows "hearts_in_bounds (heart_update ev s l)"
proof -
  have "hearts_in_bounds (enemy_collision (move_hearts ev s) l)"
    using assms by (simp add: hearts_in_bounds_frame move_hearts_in_bounds)
  then have "hearts_in_bounds ((enemy_collision (move_hearts ev s) l)
      \<lparr>heart_move_delay := milliseconds (enemy_collision (move_hearts ev s) l)\<rparr>)"
    by (simp add: hearts_in_bounds_def)
  then show ?thesis using assms by (simp add: heart_update_def Let_def)
qed

lemma level2_collection_in_bounds:
  "hearts_in_bounds (level2_collection s l) = hearts_in_bounds s"
  by (simp add: level2_collection_def collect_hearts_in_bounds)

lemma game_over_menu_in_bounds:
  assumes "hearts_in_bounds s"
  shows "hearts_in_bounds (fst (game_over_menu ev s l))"
proof -
  have r: "\<And>u. hearts_in_bounds u \<Longrightarrow> hearts_in_bounds (u\<lparr>current_level := 1, game_over := 0,
      game_won := 0, heart1_eaten := 0, heart2_eaten := 0, heart3_eaten := 0, heart4_eaten := 0,
      show_game_over_menu := 0, heart1_x := 40, heart1_y := 80, heart2_x := 60, heart2_y := 90\<rparr>)"
    by (simp add: hearts_in_bounds_def)
  have m: "\<And>u. hearts_in_bounds u \<Longrightarrow> hearts_in_bounds (u\<lparr>in_menu := 1, show_game_over_menu := 0,
      current_level := 1\<rparr>)"
    by (simp add: hearts_in_bounds_def)
  show ?thesis
    using assms by (simp add: game_over_menu_def Let_def hearts_in_bounds_frame r m)
qed

lemma playing_iteration_in_bounds:
  assumes "hearts_in_bounds s"
  shows "hearts_in_bounds (fst (playing_iteration ev s l))"
  using assms
  by (simp add: playing_iteration_def Let_def split_beta hearts_in_bounds_frame
      game_over_menu_in_bounds level2_collection_in_bounds heart_update_in_bounds
      game_state_updates_in_bounds)

lemma start_new_game_in_bounds:
  assumes "hearts_in_bounds s"
  shows "hearts_in_bounds (fst (start_new_game s l))"
  using assms by (simp add: start_new_game_def Let_def hearts_in_bounds_def initEnemies_def)


lemma level_ok_cong:
  "current_level s' = current_level s \<Longrightarrow> in_menu s' = in_menu s \<Longrightarrow>
     game_won s' = game_won s \<Longrightarrow> level_ok s' = level_ok s"
  by (simp add: level_ok_def)

lemma level_ok_frame:
  "level_ok (do_delay d s) = level_ok s"
  "level_ok (moveEnemies px py s) = level_ok s"
  "level_ok (move_hearts ev s) = level_ok s"
  "level_ok (enemy_collision s l) = level_ok s"
  "level_ok (toggle_selection s) = level_ok s"
  by (rule level_ok_cong;
      simp add: do_delay_eq moveEnemies_def move_hearts_frame enemy_collision_def
        toggle_selection_def Let_def move_hearts_def move_heart1_def move_heart2_def
        move_heart3_def move_heart4_def)+

lemma checkWinCondition_level_ok:
  assumes "level_ok s"
  shows "level_ok (fst (checkWinCondition x y s))"
proof -
  have a: "\<And>h. level_ok (initEnemies (do_delay 2000 (s\<lparr>hearts_collected := h,
      current_level := 2, heart1_eaten := 0, heart2_eaten := 0, heart3_eaten := 0,
      heart4_eaten := 0\<rparr>)))"
    by (simp add: level_ok_def initEnemies_def do_delay_eq)
  have b: "\<And>h. current_level s \<noteq> 1 \<Longrightarrow>
      level_ok (showWinScreen (s\<lparr>hearts_collected := h, game_won := 1\<rparr>))"
    using assms by (simp add: level_ok_def showWinScreen_eq)
  have c: "\<And>h. level_ok (s\<lparr>hearts_collected := h\<rparr>)"
    using assms by (simp add: level_ok_def)
  show ?thesis by (simp add: checkWinCondition_cases a b c)
qed

lemma collect_hearts_level_ok:
  assumes "level_ok s"
  shows "level_ok (collect_heart1 s l)" "level_ok (collect_heart2 s l)"
    "level_ok (collect_heart3 s l)" "level_ok (collect_heart4 s l)"
proof -
  have "level_ok (do_delay 500 (s\<lparr>heart1_eaten := 1\<rparr>))"
       "level_ok (do_delay 500 (s\<lparr>heart2_eaten := 1\<rparr>))"
       "level_ok (do_delay 500 (s\<lparr>heart3_eaten := 1\<rparr>))"
       "level_ok (do_delay 500 (s\<lparr>heart4_eaten := 1\<rparr>))"
    using assms by (simp_all add: level_ok_def do_delay_eq)
  then show "level_ok (collect_heart1 s l)" "level_ok (collect_heart2 s l)"
    "level_ok (collect_heart3 s l)" "level_ok (collect_heart4 s l)"
    using assms
    by (simp_all add: collect_heart1_def collect_heart2_def collect_heart3_def
        collect_heart4_def checkWinCondition_level_ok)
qed

lemma game_state_updates_level_ok:
  assumes "level_ok s"
  shows "level_ok (fst (game_state_updates ev s l))"
proof -
  have "level_ok (fst (checkWinCondition (main_x l) (main_y l) s))"
    using assms by (rule checkWinCondition_level_ok)
  then show ?thesis
    by (simp add: game_state_updates_def Let_def split_beta level_ok_frame
        collect_hearts_level_ok)
qed

lemma heart_update_level_ok: "level_ok s \<Longrightarrow> level_ok (heart_update ev s l)"
proof -
  assume a: "level_ok s"
  then have "level_ok (enemy_collision (move_hearts ev s) l)"
    by (simp add: level_ok_frame)
  then have "level_ok ((enemy_collision (move_hearts ev s) l)
      \<lparr>heart_move_delay := milliseconds (enemy_collision (move_hearts ev s) l)\<rparr>)"
    by (simp add: level_ok_def)
  then show ?thesis using a by (simp add: heart_update_def Let_def)
qed

lemma level2_collection_level_ok: "level_ok s \<Longrightarrow> level_ok (level2_collection s l)"
  by (simp add: level2_collection_def collect_hearts_level_ok)

lemma game_over_menu_level_ok:
  assumes "level_ok s"
  shows "level_ok (fst (game_over_menu ev s l))"
proof -
  have r: "\<And>u. level_ok (initEnemies (u\<lparr>current_level := 1, game_over := 0,
      game_won := 0, heart1_eaten := 0, heart2_eaten := 0, heart3_eaten := 0, heart4_eaten := 0,
      show_game_over_menu := 0, heart1_x := 40, heart1_y := 80, heart2_x := 60, heart2_y := 90\<rparr>))"
    by (simp add: level_ok_def initEnemies_def)
  have m: "\<And>u. level_ok (u\<lparr>in_menu := 1, show_game_over_menu := 0, current_level := 1\<rparr>)"
    by (simp add: level_ok_def)
  show ?thesis
    using assms by (simp add: game_over_menu_def Let_def level_ok_frame r m)
qed

lemma playing_iteration_level_ok:
  assumes "level_ok s"
  shows "level_ok (fst (playing_iteration ev s l))"
  using assms
  by (simp add: playing_iteration_def Let_def split_beta level_ok_frame
      game_over_menu_level_ok level2_collection_level_ok heart_update_level_ok
      game_state_updates_level_ok)

lemma start_new_game_level_ok:
  assumes "current_level s = 1 \<or> current_level s = 2"
  shows "level_ok (fst (start_new_game s l))"
  using assms by (auto simp add: start_new_game_def Let_def level_ok_def initEnemies_def)

lemma initial_level_ok: "level_ok initial_game"
  by (simp add: level_ok_def initial_game_def)

end
